theory Spec2Isabelle
  imports Main "HOL-Library.Sublist"
begin

section \<open>JavaScript values and strings\<close>

text \<open>
  The SDK is TypeScript. The values that flow through the error layer are numbers,
  strings, plain objects and \<open>undefined\<close>/\<open>null\<close>. Numbers are modelled as \<open>int\<close>:
  attempt counters and HTTP and gRPC status codes are integers, and millisecond values
  are taken to be whole numbers. The only arithmetic is
  \<open>initialDelay * Math.pow(backoffMultiplier, attempt - 1)\<close> and \<open>Math.min\<close>, which
  are exact on integers in the range of a double.
\<close>

datatype js_value =
    Undefined
  | Num int
  | Str string
  | Obj "(string \<times> js_value) list"

type_synonym js_object = "(string \<times> js_value) list"

text \<open>Truthiness, as \<open>||\<close> and \<open>!\<close> see it.\<close>

fun truthy :: "js_value \<Rightarrow> bool" where
  "truthy Undefined = False"
| "truthy (Num n) = (n \<noteq> 0)"
| "truthy (Str s) = (s \<noteq> [])"
| "truthy (Obj ps) = True"

text \<open>Decimal rendering of a number inside a template string.\<close>

definition digit_char :: "nat \<Rightarrow> char" where
  "digit_char d = char_of (48 + d)"

function nat_to_string :: "nat \<Rightarrow> string" where
  "nat_to_string n =
     (if n < 10 then [digit_char n] else nat_to_string (n div 10) @ [digit_char (n mod 10)])"
  by pat_completeness auto
termination
  by (relation "measure id") auto

definition int_to_string :: "int \<Rightarrow> string" where
  "int_to_string i = (if i < 0 then CHR ''-'' # nat_to_string (nat (- i)) else nat_to_string (nat i))"

text \<open>\<open>String(v)\<close> and \<open>`${v}`\<close>.\<close>

fun to_string :: "js_value \<Rightarrow> string" where
  "to_string Undefined = ''undefined''"
| "to_string (Num n) = int_to_string n"
| "to_string (Str s) = s"
| "to_string (Obj ps) = ''[object Object]''"

text \<open>\<open>s.includes(p)\<close>: \<open>p\<close> occurs in \<open>s\<close> as a contiguous substring.\<close>

fun str_includes :: "string \<Rightarrow> string \<Rightarrow> bool" where
  "str_includes [] p = (p = [])"
| "str_includes (c # cs) p = (prefix p (c # cs) \<or> str_includes cs p)"

text \<open>Property lookup \<open>o.k\<close> (\<open>undefined\<close> when absent) and assignment \<open>o[k] = v\<close>.\<close>

definition get_prop :: "js_object \<Rightarrow> string \<Rightarrow> js_value" where
  "get_prop ob k = (case map_of ob k of None \<Rightarrow> Undefined | Some v \<Rightarrow> v)"

fun set_prop :: "js_object \<Rightarrow> string \<Rightarrow> js_value \<Rightarrow> js_object" where
  "set_prop [] k v = [(k, v)]"
| "set_prop ((k', v') # ps) k v = (if k' = k then (k, v) # ps else (k', v') # set_prop ps k v)"

text \<open>
  Object spread \<open>{...base, ...src}\<close> for an optional object \<open>src\<close>: the own properties
  of \<open>src\<close> are assigned in order; spreading \<open>undefined\<close> adds nothing.
\<close>

definition spread :: "js_object \<Rightarrow> js_object option \<Rightarrow> js_object" where
  "spread base src =
     (case src of None \<Rightarrow> base | Some ps \<Rightarrow> foldl (\<lambda>ob (k, v). set_prop ob k v) base ps)"

text \<open>An optional object as a value (\<open>undefined\<close> when absent).\<close>

definition opt_obj :: "js_object option \<Rightarrow> js_value" where
  "opt_obj d = (case d of None \<Rightarrow> Undefined | Some ps \<Rightarrow> Obj ps)"

section \<open>errors.ts: the error classes\<close>

datatype err_class =
    HuefyErrorC
  | AuthenticationErrorC
  | TemplateNotFoundErrorC
  | InvalidTemplateDataErrorC
  | InvalidRecipientErrorC
  | ProviderErrorC
  | RateLimitErrorC
  | NetworkErrorC
  | TimeoutErrorC
  | ValidationErrorC

text \<open>The \<open>name\<close> property each constructor sets.\<close>

fun class_name :: "err_class \<Rightarrow> string" where
  "class_name HuefyErrorC = ''HuefyError''"
| "class_name AuthenticationErrorC = ''AuthenticationError''"
| "class_name TemplateNotFoundErrorC = ''TemplateNotFoundError''"
| "class_name InvalidTemplateDataErrorC = ''InvalidTemplateDataError''"
| "class_name InvalidRecipientErrorC = ''InvalidRecipientError''"
| "class_name ProviderErrorC = ''ProviderError''"
| "class_name RateLimitErrorC = ''RateLimitError''"
| "class_name NetworkErrorC = ''NetworkError''"
| "class_name TimeoutErrorC = ''TimeoutError''"
| "class_name ValidationErrorC = ''ValidationError''"

record huefy_error =
  cls :: err_class
  message :: string
  code :: string
  statusCode :: "int option"
  details :: js_value

text \<open>\<open>new HuefyError(message, code, statusCode, details)\<close>.\<close>

definition HuefyError :: "string \<Rightarrow> string \<Rightarrow> int option \<Rightarrow> js_value \<Rightarrow> huefy_error" where
  "HuefyError m c s d = \<lparr>cls = HuefyErrorC, message = m, code = c, statusCode = s, details = d\<rparr>"

definition AuthenticationError :: "string \<Rightarrow> js_value \<Rightarrow> huefy_error" where
  "AuthenticationError m d = (HuefyError m ''INVALID_API_KEY'' (Some 401) d)\<lparr>cls := AuthenticationErrorC\<rparr>"

definition TemplateNotFoundError :: "js_value \<Rightarrow> js_object option \<Rightarrow> huefy_error" where
  "TemplateNotFoundError templateKey d =
     (HuefyError (''Template '' @ [CHR 0x27] @ to_string templateKey @ [CHR 0x27] @ '' not found'')
        ''TEMPLATE_NOT_FOUND'' (Some 404)
        (Obj (spread [(''template_key'', templateKey)] d)))\<lparr>cls := TemplateNotFoundErrorC\<rparr>"

definition InvalidTemplateDataError :: "string \<Rightarrow> js_value \<Rightarrow> huefy_error" where
  "InvalidTemplateDataError m d =
     (HuefyError m ''INVALID_TEMPLATE_DATA'' (Some 400) d)\<lparr>cls := InvalidTemplateDataErrorC\<rparr>"

definition InvalidRecipientError :: "js_value \<Rightarrow> js_object option \<Rightarrow> huefy_error" where
  "InvalidRecipientError recipient d =
     (HuefyError (''Invalid recipient email: '' @ to_string recipient)
        ''INVALID_RECIPIENT'' (Some 400)
        (Obj (spread [(''recipient'', recipient)] d)))\<lparr>cls := InvalidRecipientErrorC\<rparr>"

definition ProviderError :: "string \<Rightarrow> js_value \<Rightarrow> huefy_error" where
  "ProviderError m d = (HuefyError m ''PROVIDER_ERROR'' (Some 500) d)\<lparr>cls := ProviderErrorC\<rparr>"

definition RateLimitError :: "string \<Rightarrow> js_value \<Rightarrow> huefy_error" where
  "RateLimitError m d = (HuefyError m ''RATE_LIMIT_EXCEEDED'' (Some 429) d)\<lparr>cls := RateLimitErrorC\<rparr>"

text \<open>\<open>new NetworkError(message, cause)\<close>: the details are \<open>{cause: cause?.message}\<close>.\<close>

definition NetworkError :: "string \<Rightarrow> string option \<Rightarrow> huefy_error" where
  "NetworkError m cause =
     (HuefyError m ''NETWORK_ERROR'' None
        (Obj [(''cause'', case cause of None \<Rightarrow> Undefined | Some c \<Rightarrow> Str c)]))\<lparr>cls := NetworkErrorC\<rparr>"

definition TimeoutError :: "int \<Rightarrow> huefy_error" where
  "TimeoutError t =
     (HuefyError (''Request timed out after '' @ int_to_string t @ ''ms'') ''TIMEOUT_ERROR'' None
        (Obj [(''timeout'', Num t)]))\<lparr>cls := TimeoutErrorC\<rparr>"

definition ValidationError :: "string \<Rightarrow> js_value \<Rightarrow> huefy_error" where
  "ValidationError m d = (HuefyError m ''VALIDATION_ERROR'' (Some 400) d)\<lparr>cls := ValidationErrorC\<rparr>"

text \<open>The \<open>ErrorResponse\<close> payload of types.ts: \<open>{error, code, details?}\<close>.\<close>

record error_response =
  resp_error :: string
  resp_code :: string
  resp_details :: "js_object option"

text \<open>\<open>data.details?.key || 'unknown'\<close>.\<close>

definition detail_or_unknown :: "js_object option \<Rightarrow> string \<Rightarrow> js_value" where
  "detail_or_unknown d k =
     (let v = (case d of None \<Rightarrow> Undefined | Some ps \<Rightarrow> get_prop ps k)
      in if truthy v then v else Str ''unknown'')"

definition createErrorFromResponse :: "error_response \<Rightarrow> int \<Rightarrow> huefy_error" where
  "createErrorFromResponse data status =
     (if resp_code data = ''INVALID_API_KEY'' then
        AuthenticationError (resp_error data) (opt_obj (resp_details data))
      else if resp_code data = ''TEMPLATE_NOT_FOUND'' then
        TemplateNotFoundError (detail_or_unknown (resp_details data) ''template_key'') (resp_details data)
      else if resp_code data = ''INVALID_TEMPLATE_DATA'' then
        InvalidTemplateDataError (resp_error data) (opt_obj (resp_details data))
      else if resp_code data = ''INVALID_RECIPIENT'' then
        InvalidRecipientError (detail_or_unknown (resp_details data) ''recipient'') (resp_details data)
      else if resp_code data = ''PROVIDER_ERROR'' then
        ProviderError (resp_error data) (opt_obj (resp_details data))
      else if resp_code data = ''RATE_LIMIT_EXCEEDED'' then
        RateLimitError (resp_error data) (opt_obj (resp_details data))
      else HuefyError (resp_error data) (resp_code data) (Some status) (opt_obj (resp_details data)))"

section \<open>Thrown values\<close>

text \<open>
  A \<open>catch (error)\<close> clause receives any value. The model distinguishes a thrown
  primitive, a built-in error object (\<open>Error\<close> or \<open>TypeError\<close>, with its \<open>name\<close> and
  \<open>message\<close>) and an error of the SDK's own hierarchy.
\<close>

datatype js_prim = PUndefined | PNull | PNum int | PStr string

datatype native_class = ErrorN | TypeErrorN

datatype js_thrown =
    ThrownPrim js_prim
  | NativeError native_class string string
  | Huefy huefy_error

fun prim_truthy :: "js_prim \<Rightarrow> bool" where
  "prim_truthy PUndefined = False"
| "prim_truthy PNull = False"
| "prim_truthy (PNum n) = (n \<noteq> 0)"
| "prim_truthy (PStr s) = (s \<noteq> [])"

fun prim_to_string :: "js_prim \<Rightarrow> string" where
  "prim_to_string PUndefined = ''undefined''"
| "prim_to_string PNull = ''null''"
| "prim_to_string (PNum n) = int_to_string n"
| "prim_to_string (PStr s) = s"

text \<open>\<open>error instanceof Error\<close>, \<open>error instanceof TypeError\<close>, \<open>error instanceof HuefyError\<close>.\<close>

fun instanceof_Error :: "js_thrown \<Rightarrow> bool" where
  "instanceof_Error (ThrownPrim p) = False"
| "instanceof_Error (NativeError c n m) = True"
| "instanceof_Error (Huefy h) = True"

fun instanceof_TypeError :: "js_thrown \<Rightarrow> bool" where
  "instanceof_TypeError (NativeError TypeErrorN n m) = True"
| "instanceof_TypeError x = False"

fun instanceof_HuefyError :: "js_thrown \<Rightarrow> bool" where
  "instanceof_HuefyError (Huefy h) = True"
| "instanceof_HuefyError x = False"

text \<open>\<open>error instanceof C\<close> for a leaf class \<open>C\<close> of the SDK's hierarchy.\<close>

fun instanceof_class :: "js_thrown \<Rightarrow> err_class \<Rightarrow> bool" where
  "instanceof_class (Huefy h) c = (cls h = c)"
| "instanceof_class x c = False"

text \<open>\<open>error.name\<close> and \<open>error.message\<close> of an error object. A primitive has neither
  property; reading one gives \<open>undefined\<close>, which every use below treats as it treats
  the empty string (both are falsy), so the model returns the empty string there.\<close>

fun error_name :: "js_thrown \<Rightarrow> string" where
  "error_name (ThrownPrim p) = []"
| "error_name (NativeError c n m) = n"
| "error_name (Huefy h) = class_name (cls h)"

fun error_message :: "js_thrown \<Rightarrow> string" where
  "error_message (ThrownPrim p) = []"
| "error_message (NativeError c n m) = m"
| "error_message (Huefy h) = message h"

text \<open>\<open>String(error)\<close>: an error object prints as \<open>name: message\<close>.\<close>

fun thrown_to_string :: "js_thrown \<Rightarrow> string" where
  "thrown_to_string (ThrownPrim p) = prim_to_string p"
| "thrown_to_string (NativeError c n m) = n @ '': '' @ m"
| "thrown_to_string (Huefy h) = class_name (cls h) @ '': '' @ message h"

section \<open>errors.ts: retryability of a classified error\<close>

text \<open>
  \<open>isHuefyError\<close> tests the flag \<open>isHuefyError\<close> that only the constructor of
  \<open>HuefyError\<close> sets.
\<close>

definition isHuefyError :: "js_thrown \<Rightarrow> bool" where
  "isHuefyError error = instanceof_HuefyError error"

text \<open>
  \<open>isRetryableError\<close>: the second equation is the early return for a value that is not
  a \<open>HuefyError\<close>. A status code of 0 or an absent one is falsy.
\<close>

fun isRetryableError :: "js_thrown \<Rightarrow> bool" where
  "isRetryableError (Huefy h) =
     (if cls h = NetworkErrorC \<or> cls h = TimeoutErrorC then True
      else if (case statusCode h of None \<Rightarrow> False | Some s \<Rightarrow> s \<noteq> 0 \<and> s \<ge> 500) then True
      else if (case statusCode h of None \<Rightarrow> False | Some s \<Rightarrow> s \<noteq> 0 \<and> s \<ge> 400 \<and> s < 500)
        then statusCode h = Some 429
      else False)"
| "isRetryableError x = False"

section \<open>The retry loop shared by the three clients\<close>

record retry_config =
  maxAttempts :: int
  initialDelay :: int
  backoffMultiplier :: int
  maxDelay :: int
  retryableStatusCodes :: "int list"

text \<open>What a call to a client does, in order: transport attempts and back-off sleeps.\<close>

datatype event = Call nat | Sleep int

fun calls :: "event list \<Rightarrow> nat list" where
  "calls [] = []"
| "calls (Call k # es) = k # calls es"
| "calls (Sleep d # es) = calls es"

fun sleeps :: "event list \<Rightarrow> int list" where
  "sleeps [] = []"
| "sleeps (Call k # es) = sleeps es"
| "sleeps (Sleep d # es) = d # sleeps es"

text \<open>
  \<open>Math.min(initialDelay * Math.pow(backoffMultiplier, attempt - 1), maxDelay)\<close>; the loop
  counter starts at 1.
\<close>

definition backoff_delay :: "retry_config \<Rightarrow> nat \<Rightarrow> int" where
  "backoff_delay rc attempt =
     min (initialDelay rc * backoffMultiplier rc ^ (attempt - 1)) (maxDelay rc)"

text \<open>
  \<open>HttpClient.request\<close>, \<open>GrpcClient.makeGrpcRequest\<close> and
  \<open>KernelClient.executeKernelCommand\<close> contain the same loop
  \<open>for (attempt = 1; attempt <= maxAttempts; attempt++) { try { return await call } catch ... }\<close>;
  they differ in the retryability test and in what is thrown after the loop. The loop is
  modelled once, over the test \<open>retryable\<close> and the transport \<open>call\<close>, which gives the
  outcome of the attempt with a given number (\<open>Inl\<close> what it throws, \<open>Inr\<close> what it
  returns). The result is the trace of events and either the returned response or the
  value of \<open>lastError\<close> when the loop is left (\<open>None\<close> is \<open>null\<close>).
\<close>

function retry_loop ::
  "retry_config \<Rightarrow> ('e \<Rightarrow> bool) \<Rightarrow> (nat \<Rightarrow> 'e + 'r) \<Rightarrow> nat \<Rightarrow> 'e option
     \<Rightarrow> event list \<times> ('e option + 'r)" where
  "retry_loop rc retryable call attempt lastError =
     (if int attempt \<le> maxAttempts rc then
        (case call attempt of
           Inr response \<Rightarrow> ([Call attempt], Inr response)
         | Inl error \<Rightarrow>
             if int attempt = maxAttempts rc then ([Call attempt], Inl (Some error))
             else if \<not> retryable error then ([Call attempt], Inl (Some error))
             else (case retry_loop rc retryable call (attempt + 1) (Some error) of
                     (evs, out) \<Rightarrow> (Call attempt # Sleep (backoff_delay rc attempt) # evs, out)))
      else ([], Inl lastError))"
  by pat_completeness auto
termination
  by (relation "measure (\<lambda>(rc, retryable, call, attempt, lastError).
        nat (maxAttempts rc + 1 - int attempt))") auto

section \<open>http.ts: the HTTP client\<close>

definition HTTP_DEFAULT_RETRY_CONFIG :: retry_config where
  "HTTP_DEFAULT_RETRY_CONFIG =
     \<lparr>maxAttempts = 3, initialDelay = 1000, backoffMultiplier = 2, maxDelay = 10000,
      retryableStatusCodes = [429, 500, 502, 503, 504]\<rparr>"

text \<open>\<open>HuefyConfig\<close> of types.ts; an absent optional field is \<open>None\<close>.\<close>

record huefy_config =
  apiKey :: string
  baseUrl :: "string option"
  timeout :: "int option"
  retryAttempts :: "int option"
  retryDelay :: "int option"

text \<open>\<open>x || d\<close> on an optional number and on an optional string.\<close>

definition num_or :: "int option \<Rightarrow> int \<Rightarrow> int" where
  "num_or x d = (case x of None \<Rightarrow> d | Some v \<Rightarrow> if v = 0 then d else v)"

definition str_or :: "string option \<Rightarrow> string \<Rightarrow> string" where
  "str_or x d = (case x of None \<Rightarrow> d | Some v \<Rightarrow> if v = [] then d else v)"

record http_client =
  http_apiKey :: string
  http_baseUrl :: string
  http_timeout :: int
  http_retryConfig :: retry_config

text \<open>The constructor: \<open>Inl\<close> is the error it throws.\<close>

definition HttpClient :: "huefy_config \<Rightarrow> huefy_error + http_client" where
  "HttpClient config =
     (let this = \<lparr>http_apiKey = apiKey config,
                  http_baseUrl = str_or (baseUrl config) ''https://api.huefy.com/api/v1/sdk'',
                  http_timeout = num_or (timeout config) 30000,
                  http_retryConfig = HTTP_DEFAULT_RETRY_CONFIG
                    \<lparr>maxAttempts := num_or (retryAttempts config) (maxAttempts HTTP_DEFAULT_RETRY_CONFIG),
                     initialDelay := num_or (retryDelay config) (initialDelay HTTP_DEFAULT_RETRY_CONFIG)\<rparr>\<rparr>
      in if http_apiKey this = [] then
           Inl (HuefyError ''API key is required and must be a string'' ''INVALID_CONFIG'' None Undefined)
         else if http_timeout this < 0 then
           Inl (HuefyError ''Timeout must be a positive number'' ''INVALID_CONFIG'' None Undefined)
         else Inr this)"

text \<open>
  One exchange as \<open>makeRequest\<close> sees it: \<open>fetch\<close> rejects with a value, or a response
  arrives with a status and a body that \<open>response.json()\<close> decodes or fails to decode.
\<close>

datatype 'b fetch_outcome =
    FetchRejected js_thrown
  | Responded int "'b option"

text \<open>\<open>response.ok\<close>: the status is in the range 200 to 299.\<close>

definition response_ok :: "int \<Rightarrow> bool" where
  "response_ok status = (200 \<le> status \<and> status \<le> 299)"

text \<open>
  The outer \<open>catch\<close> block of \<open>makeRequest\<close> (lines 191 to 215): what it throws.
  \<open>tmo\<close> is the \<open>timeout\<close> argument; an absent one is 0 here, which \<open>||\<close> treats
  alike.
\<close>

definition makeRequest_catch :: "http_client \<Rightarrow> int \<Rightarrow> js_thrown \<Rightarrow> js_thrown" where
  "makeRequest_catch this tmo error =
     (if instanceof_Error error \<and> error_name error = ''AbortError'' then
        Huefy (TimeoutError (if tmo \<noteq> 0 then tmo else http_timeout this))
      else if instanceof_TypeError error
              \<or> (instanceof_Error error \<and> str_includes (error_message error) ''fetch'') then
        Huefy (NetworkError
                 (''Network error: '' @
                    (if instanceof_Error error then error_message error
                     else ''Unknown network error''))
                 (if instanceof_Error error then Some (error_message error) else None))
      else if instanceof_HuefyError error then error
      else Huefy (HuefyError
                    (''Unexpected error: '' @
                       (if instanceof_Error error then error_message error
                        else thrown_to_string error))
                    ''UNEXPECTED_ERROR'' None Undefined))"

text \<open>
  \<open>makeRequest\<close>. The cast \<open>responseData as unknown as ErrorResponse\<close> is the parameter
  \<open>as_error\<close>. Everything thrown inside the \<open>try\<close> passes through the \<open>catch\<close> block.
\<close>

definition makeRequest ::
  "http_client \<Rightarrow> ('b \<Rightarrow> error_response) \<Rightarrow> int \<Rightarrow> 'b fetch_outcome \<Rightarrow> js_thrown + ('b \<times> int)" where
  "makeRequest this as_error tmo outcome =
     (case outcome of
        FetchRejected x \<Rightarrow> Inl (makeRequest_catch this tmo x)
      | Responded status None \<Rightarrow>
          Inl (makeRequest_catch this tmo
                 (Huefy (HuefyError ''Failed to parse response as JSON'' ''INVALID_RESPONSE''
                           (Some status) Undefined)))
      | Responded status (Some responseData) \<Rightarrow>
          if \<not> response_ok status then
            Inl (makeRequest_catch this tmo
                   (Huefy (createErrorFromResponse (as_error responseData) status)))
          else Inr (responseData, status))"

text \<open>
  \<open>request\<close>: the loop with \<open>isRetryableError\<close>, then \<open>throw lastError\<close>. The transport
  \<open>call\<close> is \<open>makeRequest\<close> on the exchange of each attempt.
\<close>

definition request ::
  "http_client \<Rightarrow> (nat \<Rightarrow> js_thrown + 'r) \<Rightarrow> event list \<times> (js_thrown option + 'r)" where
  "request this call = retry_loop (http_retryConfig this) isRetryableError call 1 None"

section \<open>grpc-client.ts: the gRPC client\<close>

definition GRPC_DEFAULT_RETRY_CONFIG :: retry_config where
  "GRPC_DEFAULT_RETRY_CONFIG =
     \<lparr>maxAttempts = 3, initialDelay = 1000, backoffMultiplier = 2, maxDelay = 10000,
      retryableStatusCodes = [14, 13, 8]\<rparr>"

text \<open>
  The numeric values of \<open>grpc.status\<close> in the library \<open>@grpc/grpc-js\<close>, which the
  client imports (the comment on \<open>retryableStatusCodes\<close> names 14, 13 and 8 as
  UNAVAILABLE, INTERNAL and RESOURCE_EXHAUSTED).
\<close>

definition INVALID_ARGUMENT :: int where "INVALID_ARGUMENT = 3"
definition DEADLINE_EXCEEDED :: int where "DEADLINE_EXCEEDED = 4"
definition NOT_FOUND :: int where "NOT_FOUND = 5"
definition PERMISSION_DENIED :: int where "PERMISSION_DENIED = 7"
definition RESOURCE_EXHAUSTED :: int where "RESOURCE_EXHAUSTED = 8"
definition INTERNAL :: int where "INTERNAL = 13"
definition UNAVAILABLE :: int where "UNAVAILABLE = 14"
definition UNAUTHENTICATED :: int where "UNAUTHENTICATED = 16"

text \<open>
  The error object the gRPC callback receives: \<open>code\<close> (\<open>None\<close> when it is not a
  number), \<open>details\<close> and \<open>message\<close> (empty when absent: both are falsy).
\<close>

record grpc_error =
  gcode :: "int option"
  gdetails :: string
  gmessage :: string

record grpc_client =
  grpc_apiKey :: string
  grpc_endpoint :: string
  grpc_timeout :: int
  grpc_retryConfig :: retry_config

text \<open>\<open>getGrpcEndpoint\<close>; \<open>production\<close> is \<open>process.env.NODE_ENV === 'production'\<close>.\<close>

definition getGrpcEndpoint :: "bool \<Rightarrow> huefy_config \<Rightarrow> string" where
  "getGrpcEndpoint production config =
     (case baseUrl config of
        Some u \<Rightarrow> if u \<noteq> [] then u
                  else if production then ''api.huefy.dev:50051'' else ''localhost:50051''
      | None \<Rightarrow> if production then ''api.huefy.dev:50051'' else ''localhost:50051'')"

text \<open>
  The constructor. \<open>init_failure\<close> is the message of what loading the protobuf
  definitions throws inside \<open>initializeGrpcClient\<close>, \<open>None\<close> when it succeeds.
\<close>

definition GrpcClient :: "bool \<Rightarrow> string option \<Rightarrow> huefy_config \<Rightarrow> huefy_error + grpc_client" where
  "GrpcClient production init_failure config =
     (let this = \<lparr>grpc_apiKey = apiKey config,
                  grpc_endpoint = getGrpcEndpoint production config,
                  grpc_timeout = num_or (timeout config) 30000,
                  grpc_retryConfig = GRPC_DEFAULT_RETRY_CONFIG
                    \<lparr>maxAttempts := num_or (retryAttempts config) (maxAttempts GRPC_DEFAULT_RETRY_CONFIG),
                     initialDelay := num_or (retryDelay config) (initialDelay GRPC_DEFAULT_RETRY_CONFIG)\<rparr>\<rparr>
      in if grpc_apiKey this = [] then
           Inl (HuefyError ''API key is required and must be a string'' ''INVALID_CONFIG'' None Undefined)
         else if grpc_timeout this < 0 then
           Inl (HuefyError ''Timeout must be a positive number'' ''INVALID_CONFIG'' None Undefined)
         else (case init_failure of
                 Some m \<Rightarrow> Inl (HuefyError (''Failed to initialize gRPC client: '' @ m)
                                 ''GRPC_INIT_ERROR'' None Undefined)
               | None \<Rightarrow> Inr this))"

definition isRetryableGrpcError :: "grpc_client \<Rightarrow> grpc_error \<Rightarrow> bool" where
  "isRetryableGrpcError this error =
     (case gcode error of
        None \<Rightarrow> False
      | Some c \<Rightarrow> c \<in> set (retryableStatusCodes (grpc_retryConfig this)))"

text \<open>\<open>convertGrpcError\<close>; \<open>None\<close> is a \<open>null\<close> error.\<close>

definition convertGrpcError :: "grpc_client \<Rightarrow> grpc_error option \<Rightarrow> huefy_error" where
  "convertGrpcError this error =
     (case error of
        None \<Rightarrow> HuefyError ''Unknown error occurred'' ''UNKNOWN_ERROR'' None Undefined
      | Some e \<Rightarrow>
          (let msg = (if gdetails e \<noteq> [] then gdetails e
                      else if gmessage e \<noteq> [] then gmessage e else ''Unknown gRPC error'')
           in if gcode e = Some INVALID_ARGUMENT then ValidationError msg Undefined
              else if gcode e = Some UNAUTHENTICATED then AuthenticationError msg Undefined
              else if gcode e = Some PERMISSION_DENIED then AuthenticationError msg Undefined
              else if gcode e = Some NOT_FOUND then TemplateNotFoundError (Str msg) None
              else if gcode e = Some RESOURCE_EXHAUSTED then RateLimitError msg (Num 0)
              else if gcode e = Some UNAVAILABLE then ProviderError [] (Str [])
              else if gcode e = Some DEADLINE_EXCEEDED then TimeoutError (grpc_timeout this)
              else if gcode e = Some INTERNAL then HuefyError msg ''INTERNAL_ERROR'' None Undefined
              else NetworkError
                     (''gRPC error ('' @ (case gcode e of None \<Rightarrow> ''undefined'' | Some c \<Rightarrow> int_to_string c)
                        @ ''): '' @ msg) None))"

text \<open>\<open>makeGrpcRequest\<close>: the loop, then \<open>throw this.convertGrpcError(lastError)\<close>.\<close>

definition makeGrpcRequest ::
  "grpc_client \<Rightarrow> (nat \<Rightarrow> grpc_error + 'r) \<Rightarrow> event list \<times> (huefy_error + 'r)" where
  "makeGrpcRequest this call =
     (case retry_loop (grpc_retryConfig this) (isRetryableGrpcError this) call 1 None of
        (evs, Inr response) \<Rightarrow> (evs, Inr response)
      | (evs, Inl lastError) \<Rightarrow> (evs, Inl (convertGrpcError this lastError)))"

section \<open>The kernel client (subprocess transport)\<close>

definition KERNEL_DEFAULT_RETRY_CONFIG :: retry_config where
  "KERNEL_DEFAULT_RETRY_CONFIG =
     \<lparr>maxAttempts = 3, initialDelay = 1000, backoffMultiplier = 2, maxDelay = 10000,
      retryableStatusCodes = [14, 13, 8]\<rparr>"

record kernel_client =
  kernel_apiKey :: string
  kernel_endpoint :: string
  kernel_timeout :: int
  kernel_retryConfig :: retry_config
  kernelBinaryPath :: string

text \<open>
  \<open>getKernelBinaryPath\<close>, from \<open>os.platform()\<close>, \<open>os.arch()\<close> and the package
  directory; \<open>path.join\<close> is written with the separator \<open>/\<close>.
\<close>

definition getKernelBinaryPath :: "string \<Rightarrow> string \<Rightarrow> string \<Rightarrow> huefy_error + string" where
  "getKernelBinaryPath platform arch packageDir =
     (if platform = ''darwin'' then
        Inr (packageDir @ ''/bin/'' @
               (if arch = ''arm64'' then ''kernel-cli-darwin-arm64'' else ''kernel-cli-darwin-amd64''))
      else if platform = ''linux'' then
        Inr (packageDir @ ''/bin/'' @
               (if arch = ''arm64'' then ''kernel-cli-linux-arm64'' else ''kernel-cli-linux-amd64''))
      else if platform = ''win32'' then Inr (packageDir @ ''/bin/'' @ ''kernel-cli-windows-amd64.exe'')
      else Inl (HuefyError (''Unsupported platform: '' @ platform) ''UNSUPPORTED_PLATFORM'' None Undefined))"

definition KernelClient ::
  "bool \<Rightarrow> string \<Rightarrow> string \<Rightarrow> string \<Rightarrow> huefy_config \<Rightarrow> huefy_error + kernel_client" where
  "KernelClient production platform arch packageDir config =
     (let tmo = num_or (timeout config) 30000;
          rc = KERNEL_DEFAULT_RETRY_CONFIG
                 \<lparr>maxAttempts := num_or (retryAttempts config) (maxAttempts KERNEL_DEFAULT_RETRY_CONFIG),
                  initialDelay := num_or (retryDelay config) (initialDelay KERNEL_DEFAULT_RETRY_CONFIG)\<rparr>
      in if apiKey config = [] then
           Inl (HuefyError ''API key is required and must be a string'' ''INVALID_CONFIG'' None Undefined)
         else if tmo < 0 then
           Inl (HuefyError ''Timeout must be a positive number'' ''INVALID_CONFIG'' None Undefined)
         else (case getKernelBinaryPath platform arch packageDir of
                 Inl e \<Rightarrow> Inl e
               | Inr path \<Rightarrow>
                   Inr \<lparr>kernel_apiKey = apiKey config,
                        kernel_endpoint = getGrpcEndpoint production config,
                        kernel_timeout = tmo, kernel_retryConfig = rc, kernelBinaryPath = path\<rparr>))"



record 'd proc_state =
  stdout_buf :: string
  stderr_buf :: string
  settled :: "(js_thrown + 'd) option"
  killed :: bool

definition settle :: "'d proc_state \<Rightarrow> js_thrown + 'd \<Rightarrow> 'd proc_state" where
  "settle s r = (if settled s = None then s\<lparr>settled := Some r\<rparr> else s)"




text \<open>\<open>KernelClient.isRetryableError\<close> (the private method, not the export of errors.ts).\<close>

definition KernelClient_isRetryableError :: "js_thrown \<Rightarrow> bool" where
  "KernelClient_isRetryableError error =
     (if instanceof_class error TimeoutErrorC then True
      else if instanceof_class error NetworkErrorC then True
      else if str_includes (error_message error) ''ECONNREFUSED''
              \<or> str_includes (error_message error) ''timeout'' then True
      else False)"

text \<open>\<open>KernelClient.convertError\<close>; \<open>None\<close> is a \<open>null\<close> error.\<close>

definition convertError :: "kernel_client \<Rightarrow> js_thrown option \<Rightarrow> huefy_error" where
  "convertError this error =
     (case error of
        None \<Rightarrow> HuefyError ''Unknown error occurred'' ''UNKNOWN_ERROR'' None Undefined
      | Some (Huefy h) \<Rightarrow> h
      | Some e \<Rightarrow>
          (if (case e of ThrownPrim p \<Rightarrow> \<not> prim_truthy p | _ \<Rightarrow> False) then
             HuefyError ''Unknown error occurred'' ''UNKNOWN_ERROR'' None Undefined
           else
             (let msg = (if error_message e \<noteq> [] then error_message e else ''Unknown kernel error'')
              in if str_includes msg ''API key'' then AuthenticationError msg Undefined
                 else if str_includes msg ''template'' then TemplateNotFoundError (Str msg) None
                 else if str_includes msg ''rate limit'' then RateLimitError msg (Num 0)
                 else if str_includes msg ''timeout'' then TimeoutError (kernel_timeout this)
                 else if str_includes msg ''network'' \<or> str_includes msg ''connection'' then
                   NetworkError msg None
                 else HuefyError msg ''KERNEL_ERROR'' None Undefined)))"

text \<open>\<open>executeKernelCommand\<close>: the loop, then \<open>throw this.convertError(lastError)\<close>.\<close>

definition executeKernelCommand ::
  "kernel_client \<Rightarrow> (nat \<Rightarrow> js_thrown + 'r) \<Rightarrow> event list \<times> (huefy_error + 'r)" where
  "executeKernelCommand this call =
     (case retry_loop (kernel_retryConfig this) KernelClient_isRetryableError call 1 None of
        (evs, Inr response) \<Rightarrow> (evs, Inr response)
      | (evs, Inl lastError) \<Rightarrow> (evs, Inl (convertError this lastError)))"

section \<open>The trace of a run of back-offs\<close>

text \<open>
  The events of \<open>k\<close> consecutive retried attempts starting with attempt \<open>a\<close>: each attempt
  is followed by the sleep of its back-off delay.
\<close>

definition backoff_trace :: "retry_config \<Rightarrow> nat \<Rightarrow> nat \<Rightarrow> event list" where
  "backoff_trace rc a k = concat (map (\<lambda>j. [Call j, Sleep (backoff_delay rc j)]) [a..<a + k])"

section \<open>The status and code each error class carries\<close>

text \<open>
  The status code and the code string that the constructor of each subclass passes to
  \<open>super\<close>. The base class takes both from its caller.
\<close>

fun class_status :: "err_class \<Rightarrow> int option" where
  "class_status HuefyErrorC = None"
| "class_status AuthenticationErrorC = Some 401"
| "class_status TemplateNotFoundErrorC = Some 404"
| "class_status InvalidTemplateDataErrorC = Some 400"
| "class_status InvalidRecipientErrorC = Some 400"
| "class_status ProviderErrorC = Some 500"
| "class_status RateLimitErrorC = Some 429"
| "class_status NetworkErrorC = None"
| "class_status TimeoutErrorC = None"
| "class_status ValidationErrorC = Some 400"

fun class_code :: "err_class \<Rightarrow> string" where
  "class_code HuefyErrorC = ''UNKNOWN_ERROR''"
| "class_code AuthenticationErrorC = ''INVALID_API_KEY''"
| "class_code TemplateNotFoundErrorC = ''TEMPLATE_NOT_FOUND''"
| "class_code InvalidTemplateDataErrorC = ''INVALID_TEMPLATE_DATA''"
| "class_code InvalidRecipientErrorC = ''INVALID_RECIPIENT''"
| "class_code ProviderErrorC = ''PROVIDER_ERROR''"
| "class_code RateLimitErrorC = ''RATE_LIMIT_EXCEEDED''"
| "class_code NetworkErrorC = ''NETWORK_ERROR''"
| "class_code TimeoutErrorC = ''TIMEOUT_ERROR''"
| "class_code ValidationErrorC = ''VALIDATION_ERROR''"

text \<open>
  An error as a constructor builds it: an instance of a subclass carries the status and
  the code of its class.
\<close>

definition well_formed :: "huefy_error \<Rightarrow> bool" where
  "well_formed h =
     (cls h = HuefyErrorC \<or> (statusCode h = class_status (cls h) \<and> code h = class_code (cls h)))"

text \<open>The classes the specification lists as never retried.\<close>

definition non_retryable_classes :: "err_class list" where
  "non_retryable_classes =
     [AuthenticationErrorC, TemplateNotFoundErrorC, InvalidTemplateDataErrorC,
      InvalidRecipientErrorC, ValidationErrorC]"


section \<open>Definitions unfolded together\<close>

lemmas grpc_status_defs =
  INVALID_ARGUMENT_def DEADLINE_EXCEEDED_def NOT_FOUND_def PERMISSION_DENIED_def
  RESOURCE_EXHAUSTED_def INTERNAL_def UNAVAILABLE_def UNAUTHENTICATED_def

lemmas error_ctor_defs =
  HuefyError_def AuthenticationError_def TemplateNotFoundError_def InvalidTemplateDataError_def
  InvalidRecipientError_def ProviderError_def RateLimitError_def NetworkError_def TimeoutError_def
  ValidationError_def

lemmas client_ctor_defs =
  HttpClient_def GrpcClient_def KernelClient_def getGrpcEndpoint_def getKernelBinaryPath_def
  num_or_def str_or_def HTTP_DEFAULT_RETRY_CONFIG_def GRPC_DEFAULT_RETRY_CONFIG_def
  KERNEL_DEFAULT_RETRY_CONFIG_def

section \<open>Properties of the retry loop\<close>

declare retry_loop.simps [simp del]

lemma retry_loop_exit:
  "\<not> int a \<le> maxAttempts rc \<Longrightarrow> retry_loop rc retryable call a lastError = ([], Inl lastError)"
  by (subst retry_loop.simps) simp

lemma retry_loop_return:
  "int a \<le> maxAttempts rc \<Longrightarrow> call a = Inr r \<Longrightarrow>
   retry_loop rc retryable call a lastError = ([Call a], Inr r)"
  by (subst retry_loop.simps) simp

lemma retry_loop_last:
  "int a = maxAttempts rc \<Longrightarrow> call a = Inl e \<Longrightarrow>
   retry_loop rc retryable call a lastError = ([Call a], Inl (Some e))"
  by (subst retry_loop.simps) simp

lemma retry_loop_break:
  "int a \<le> maxAttempts rc \<Longrightarrow> call a = Inl e \<Longrightarrow> \<not> retryable e \<Longrightarrow>
   retry_loop rc retryable call a lastError = ([Call a], Inl (Some e))"
  by (subst retry_loop.simps) simp

lemma retry_loop_retry:
  "int a < maxAttempts rc \<Longrightarrow> call a = Inl e \<Longrightarrow> retryable e \<Longrightarrow>
   retry_loop rc retryable call a lastError =
     (Call a # Sleep (backoff_delay rc a) # fst (retry_loop rc retryable call (Suc a) (Some e)),
      snd (retry_loop rc retryable call (Suc a) (Some e)))"
  by (subst retry_loop.simps) (simp split: prod.splits)

lemma retry_loop_lastError_irrelevant:
  "int a \<le> maxAttempts rc \<Longrightarrow>
   retry_loop rc retryable call a lastError = retry_loop rc retryable call a lastError'"
  by (subst retry_loop.simps, subst (2) retry_loop.simps) simp

lemma retry_loop_unroll:
  "(\<forall>j. a \<le> j \<and> j < a + k \<longrightarrow> (\<exists>e. call j = Inl e \<and> retryable e)) \<Longrightarrow>
   int (a + k) \<le> maxAttempts rc \<Longrightarrow>
   retry_loop rc retryable call a lastError =
     (backoff_trace rc a k @ fst (retry_loop rc retryable call (a + k) lastError'),
      snd (retry_loop rc retryable call (a + k) lastError'))"
proof (induction k arbitrary: a lastError)
  case 0
  then show ?case
    using retry_loop_lastError_irrelevant [of a rc retryable call lastError lastError']
    by (simp add: backoff_trace_def)
next
  case (Suc k)
  from Suc.prems(1) obtain e where e: "call a = Inl e" "retryable e"
    by force
  have lt: "int a < maxAttempts rc"
    using Suc.prems(2) by simp
  have step: "retry_loop rc retryable call (Suc a) (Some e) =
     (backoff_trace rc (Suc a) k @ fst (retry_loop rc retryable call (Suc a + k) lastError'),
      snd (retry_loop rc retryable call (Suc a + k) lastError'))"
    using Suc.prems by (intro Suc.IH) auto
  have tr: "backoff_trace rc a (Suc k) = Call a # Sleep (backoff_delay rc a) # backoff_trace rc (Suc a) k"
  proof -
    have "[a..<a + Suc k] = a # [Suc a..<Suc a + k]"
      by (simp add: upt_conv_Cons)
    then show ?thesis
      unfolding backoff_trace_def by simp
  qed
  have "retry_loop rc retryable call a lastError =
     (Call a # Sleep (backoff_delay rc a) # fst (retry_loop rc retryable call (Suc a) (Some e)),
      snd (retry_loop rc retryable call (Suc a) (Some e)))"
    using lt e by (rule retry_loop_retry)
  then show ?case
    by (simp add: step tr)
qed


lemma calls_backoff_trace: "calls (backoff_trace rc a k @ es) = [a..<a + k] @ calls es"
proof (induction k arbitrary: a)
  case 0
  show ?case by (simp add: backoff_trace_def)
next
  case (Suc k)
  have "[a..<a + Suc k] = a # [Suc a..<Suc a + k]"
    by (simp add: upt_conv_Cons)
  then have "backoff_trace rc a (Suc k) = Call a # Sleep (backoff_delay rc a) # backoff_trace rc (Suc a) k"
    unfolding backoff_trace_def by simp
  moreover have "[a..<a + Suc k] = a # [Suc a..<Suc a + k]"
    by (simp add: upt_conv_Cons)
  ultimately show ?case
    using Suc.IH [of "Suc a"] by simp
qed

lemma sleeps_backoff_trace:
  "sleeps (backoff_trace rc a k @ es) = map (backoff_delay rc) [a..<a + k] @ sleeps es"
proof (induction k arbitrary: a)
  case 0
  show ?case by (simp add: backoff_trace_def)
next
  case (Suc k)
  have up: "[a..<a + Suc k] = a # [Suc a..<Suc a + k]"
    by (simp add: upt_conv_Cons)
  then have "backoff_trace rc a (Suc k) = Call a # Sleep (backoff_delay rc a) # backoff_trace rc (Suc a) k"
    unfolding backoff_trace_def by simp
  then show ?case
    using Suc.IH [of "Suc a"] up by simp
qed

lemma retry_loop_exhausted:
  assumes N: "1 \<le> N" "maxAttempts rc = int N"
    and fails: "\<forall>k. 1 \<le> k \<and> k \<le> N \<longrightarrow> (\<exists>e. call k = Inl e \<and> retryable e)"
    and last: "call N = Inl e"
  shows "retry_loop rc retryable call 1 None = (backoff_trace rc 1 (N - 1) @ [Call N], Inl (Some e))"
proof -
  have pre: "\<forall>j. 1 \<le> j \<and> j < 1 + (N - 1) \<longrightarrow> (\<exists>e. call j = Inl e \<and> retryable e)"
    using fails by auto
  have bound: "int (1 + (N - 1)) \<le> maxAttempts rc"
    using N by simp
  have "retry_loop rc retryable call 1 None =
     (backoff_trace rc 1 (N - 1) @ fst (retry_loop rc retryable call (1 + (N - 1)) None),
      snd (retry_loop rc retryable call (1 + (N - 1)) None))"
    using pre bound by (rule retry_loop_unroll)
  moreover have "1 + (N - 1) = N"
    using N by simp
  moreover have "retry_loop rc retryable call N None = ([Call N], Inl (Some e))"
    using N last by (intro retry_loop_last) auto
  ultimately show ?thesis by simp
qed

lemma retry_loop_starts_with_call:
  "int a \<le> maxAttempts rc \<Longrightarrow> \<exists>rest. fst (retry_loop rc retryable call a lastError) = Call a # rest"
  by (subst retry_loop.simps) (simp split: sum.splits prod.splits)

lemma retry_loop_backoff_prefix:
  assumes k: "int k < maxAttempts rc"
    and fails: "\<forall>j. 1 \<le> j \<and> j \<le> k \<longrightarrow> (\<exists>e. call j = Inl e \<and> retryable e)"
  shows "\<exists>rest. fst (retry_loop rc retryable call 1 None) = backoff_trace rc 1 k @ Call (Suc k) # rest"
proof -
  have pre: "\<forall>j. 1 \<le> j \<and> j < 1 + k \<longrightarrow> (\<exists>e. call j = Inl e \<and> retryable e)"
    using fails by auto
  have bound: "int (1 + k) \<le> maxAttempts rc"
    using k by simp
  have "retry_loop rc retryable call 1 None =
     (backoff_trace rc 1 k @ fst (retry_loop rc retryable call (1 + k) None),
      snd (retry_loop rc retryable call (1 + k) None))"
    using pre bound by (rule retry_loop_unroll)
  moreover obtain rest where "fst (retry_loop rc retryable call (1 + k) None) = Call (1 + k) # rest"
    using retry_loop_starts_with_call [OF bound] by blast
  ultimately show ?thesis by simp
qed

lemma kth_sleep:
  assumes "1 \<le> k" "evs = backoff_trace rc 1 k @ Call (Suc k) # rest"
  shows "sleeps evs ! (k - 1) = min (initialDelay rc * backoffMultiplier rc ^ (k - 1)) (maxDelay rc)"
proof -
  have "sleeps evs = map (backoff_delay rc) [1..<1 + k] @ sleeps (Call (Suc k) # rest)"
    using assms(2) by (simp only: sleeps_backoff_trace)
  moreover have "k - 1 < length (map (backoff_delay rc) [1..<1 + k])"
    using assms(1) by simp
  ultimately have "sleeps evs ! (k - 1) = map (backoff_delay rc) [1..<1 + k] ! (k - 1)"
    by (simp only: nth_append if_True)
  also have "\<dots> = backoff_delay rc ([1..<1 + k] ! (k - 1))"
    using assms(1) by (intro nth_map) simp
  also have "[1..<1 + k] ! (k - 1) = 1 + (k - 1)"
    using assms(1) by (intro nth_upt) simp
  also have "1 + (k - 1) = k"
    using assms(1) by simp
  finally show ?thesis
    by (simp add: backoff_delay_def)
qed

lemma fst_request: "fst (request this call) = fst (retry_loop (http_retryConfig this) isRetryableError call 1 None)"
  by (simp add: request_def)

lemma fst_makeGrpcRequest:
  "fst (makeGrpcRequest this call) =
   fst (retry_loop (grpc_retryConfig this) (isRetryableGrpcError this) call 1 None)"
  by (simp add: makeGrpcRequest_def split: prod.splits sum.splits)

lemma fst_executeKernelCommand:
  "fst (executeKernelCommand this call) =
   fst (retry_loop (kernel_retryConfig this) KernelClient_isRetryableError call 1 None)"
  by (simp add: executeKernelCommand_def split: prod.splits sum.splits)

lemma calls_exhausted_trace:
  assumes "1 \<le> N"
  shows "calls (backoff_trace rc 1 (N - 1) @ [Call N]) = [1..<Suc N]"
proof -
  have "[1..<1 + (N - 1)] @ [N] = [1..<Suc N]"
    using assms by (cases N) simp_all
  then show ?thesis
    by (simp only: calls_backoff_trace calls.simps)
qed

lemma retry_loop_outcome:
  "int a \<le> maxAttempts rc \<Longrightarrow>
   (\<exists>r j. snd (retry_loop rc retryable call a lastError) = Inr r \<and> call j = Inr r)
   \<or> (\<exists>e j. snd (retry_loop rc retryable call a lastError) = Inl (Some e) \<and> call j = Inl e)"
proof (induction rc retryable call a lastError rule: retry_loop.induct)
  case (1 rc retryable call attempt lastError)
  show ?case
  proof (cases "call attempt")
    case (Inr r)
    then show ?thesis
      using "1.prems" by (auto simp: retry_loop_return)
  next
    case (Inl e)
    show ?thesis
    proof (cases "int attempt = maxAttempts rc \<or> \<not> retryable e")
      case True
      then have "retry_loop rc retryable call attempt lastError = ([Call attempt], Inl (Some e))"
        using Inl "1.prems" retry_loop_last [of attempt rc call e retryable lastError]
          retry_loop_break [of attempt rc call e retryable lastError]
        by blast
      then show ?thesis
        using Inl by auto
    next
      case False
      then have lt: "int attempt < maxAttempts rc" and re: "retryable e"
        using "1.prems" by auto
      have step: "snd (retry_loop rc retryable call attempt lastError)
          = snd (retry_loop rc retryable call (attempt + 1) (Some e))"
        using retry_loop_retry [of attempt rc call e retryable lastError] lt Inl re by simp
      have "int (attempt + 1) \<le> maxAttempts rc"
        using lt by simp
      then have "(\<exists>r j. snd (retry_loop rc retryable call (attempt + 1) (Some e)) = Inr r \<and> call j = Inr r)
          \<or> (\<exists>e' j. snd (retry_loop rc retryable call (attempt + 1) (Some e)) = Inl (Some e') \<and> call j = Inl e')"
        using "1.prems" Inl False by (intro "1.IH") auto
      then show ?thesis
        unfolding step .
    qed
  qed
qed

section \<open>Properties of the retryability tests\<close>

lemma GrpcClient_retryableStatusCodes:
  "GrpcClient production init_failure config = Inr gc \<Longrightarrow>
   retryableStatusCodes (grpc_retryConfig gc) = [14, 13, 8]"
  by (auto simp: GrpcClient_def Let_def GRPC_DEFAULT_RETRY_CONFIG_def split: if_splits option.splits)

lemma isRetryableError_Huefy:
  "isRetryableError (Huefy h) =
     (cls h = NetworkErrorC \<or> cls h = TimeoutErrorC
      \<or> (\<exists>s. statusCode h = Some s \<and> (500 \<le> s \<or> s = 429)))"
  by (cases "statusCode h") auto

lemma non_retryable_class_not_retried:
  assumes "well_formed h" "cls h \<in> set non_retryable_classes"
  shows "\<not> isRetryableError (Huefy h)"
  using assms by (auto simp: well_formed_def non_retryable_classes_def)

lemma grpc_non_retryable_class_not_retried:
  assumes "GrpcClient production init_failure config = Inr gc"
    and "cls (convertGrpcError gc (Some e)) \<in> set non_retryable_classes"
  shows "\<not> isRetryableGrpcError gc e"
proof -
  have codes: "retryableStatusCodes (grpc_retryConfig gc) = [14, 13, 8]"
    using assms(1) by (rule GrpcClient_retryableStatusCodes)
  show ?thesis
  proof (cases "gcode e")
    case None
    then show ?thesis by (simp add: isRetryableGrpcError_def)
  next
    case (Some c)
    then show ?thesis
      using assms(2)
      by (auto simp: isRetryableGrpcError_def codes convertGrpcError_def Let_def grpc_status_defs
          error_ctor_defs non_retryable_classes_def split: if_splits)
  qed
qed

lemma kernel_non_retryable_class_not_retried:
  assumes "cls (convertError kc (Some y)) \<in> set non_retryable_classes"
    and "\<not> str_includes (error_message y) ''ECONNREFUSED''"
    and "\<not> str_includes (error_message y) ''timeout''"
  shows "\<not> KernelClient_isRetryableError y"
proof (cases y)
  case (Huefy h)
  then show ?thesis
    using assms by (auto simp: KernelClient_isRetryableError_def convertError_def non_retryable_classes_def)
qed (use assms in \<open>simp_all add: KernelClient_isRetryableError_def\<close>)

section \<open>Properties of the kernel process handlers\<close>

lemma settle_settled: "settled s = Some r \<Longrightarrow> settle s r' = s"
  by (simp add: settle_def)







section \<open>Errors are built with the status of their class\<close>

lemma well_formed_ctors:
  "well_formed (HuefyError m c s d)"
  "well_formed (AuthenticationError m d)"
  "well_formed (TemplateNotFoundError k od)"
  "well_formed (InvalidTemplateDataError m d)"
  "well_formed (InvalidRecipientError k od)"
  "well_formed (ProviderError m d)"
  "well_formed (RateLimitError m d)"
  "well_formed (NetworkError m cause)"
  "well_formed (TimeoutError t)"
  "well_formed (ValidationError m d)"
  by (simp_all add: well_formed_def error_ctor_defs)

lemma well_formed_createErrorFromResponse: "well_formed (createErrorFromResponse data status)"
  by (simp add: createErrorFromResponse_def well_formed_ctors)

lemma well_formed_convertGrpcError: "well_formed (convertGrpcError gc ge)"
  by (simp add: convertGrpcError_def Let_def well_formed_ctors split: option.splits)

lemma well_formed_convertError:
  "(case y of Huefy h \<Rightarrow> well_formed h | _ \<Rightarrow> True) \<Longrightarrow> well_formed (convertError kc (Some y))"
  by (cases y) (simp_all add: convertError_def Let_def well_formed_ctors)

lemma well_formed_makeRequest_catch:
  "(case x of Huefy h \<Rightarrow> well_formed h | _ \<Rightarrow> True) \<Longrightarrow>
   \<exists>h. makeRequest_catch hc tmo x = Huefy h \<and> well_formed h"
  by (cases x) (simp_all add: makeRequest_catch_def well_formed_ctors)

section \<open>What the HTTP client throws\<close>

lemma makeRequest_catch_Huefy: "\<exists>h. makeRequest_catch hc tmo x = Huefy h"
  by (cases x) (simp_all add: makeRequest_catch_def)

lemma makeRequest_throws_Huefy:
  "makeRequest hc as_error tmo outcome = Inl x \<Longrightarrow> \<exists>h. x = Huefy h"
  using makeRequest_catch_Huefy
  by (auto simp: makeRequest_def split: fetch_outcome.splits option.splits if_splits)


section \<open>The claims\<close>

subsection \<open>Exhausting the attempts\<close>

text \<open>
  C1, as the code has it. For every \<open>maxAttempts = N \<ge> 1\<close> and every transport whose
  attempt always fails with an error that the retryability test of its own client
  accepts (\<open>isRetryableError\<close> for the HTTP client, \<open>isRetryableGrpcError\<close> for the gRPC
  client, \<open>KernelClient.isRetryableError\<close> for the kernel client), the client makes
  exactly the attempts \<open>1, \<dots>, N\<close> and then fails with the error classified from the
  \<open>N\<close>-th attempt: the HTTP client throws that (already classified) error itself, the
  gRPC client its \<open>convertGrpcError\<close>, the kernel client its \<open>convertError\<close>.
\<close>

theorem always_retryable_failure_exhausts_attempts:
  "1 \<le> N \<Longrightarrow>
   (maxAttempts (http_retryConfig hc) = int N \<and> (\<forall>k. \<exists>e. hcall k = Inl e \<and> isRetryableError e)
      \<longrightarrow> calls (fst (request hc hcall)) = [1..<Suc N]
          \<and> (\<exists>e. hcall N = Inl e \<and> snd (request hc hcall) = Inl (Some e)))
   \<and> (maxAttempts (grpc_retryConfig gc) = int N \<and> (\<forall>k. \<exists>e. gcall k = Inl e \<and> isRetryableGrpcError gc e)
      \<longrightarrow> calls (fst (makeGrpcRequest gc gcall)) = [1..<Suc N]
          \<and> (\<exists>e. gcall N = Inl e \<and> snd (makeGrpcRequest gc gcall) = Inl (convertGrpcError gc (Some e))))
   \<and> (maxAttempts (kernel_retryConfig kc) = int N
        \<and> (\<forall>k. \<exists>e. kcall k = Inl e \<and> KernelClient_isRetryableError e)
      \<longrightarrow> calls (fst (executeKernelCommand kc kcall)) = [1..<Suc N]
          \<and> (\<exists>e. kcall N = Inl e \<and> snd (executeKernelCommand kc kcall) = Inl (convertError kc (Some e))))"
proof (intro conjI impI)
  assume N: "1 \<le> N"
  note c = calls_exhausted_trace [OF N]
  {
    assume a: "maxAttempts (http_retryConfig hc) = int N \<and> (\<forall>k. \<exists>e. hcall k = Inl e \<and> isRetryableError e)"
    then obtain e where e: "hcall N = Inl e" by blast
    have r: "request hc hcall = (backoff_trace (http_retryConfig hc) 1 (N - 1) @ [Call N], Inl (Some e))"
      unfolding request_def using N a e by (intro retry_loop_exhausted) auto
    show "calls (fst (request hc hcall)) = [1..<Suc N]"
      unfolding r fst_conv by (rule c)
    show "\<exists>e. hcall N = Inl e \<and> snd (request hc hcall) = Inl (Some e)"
      using e r by simp
  }
  {
    assume a: "maxAttempts (grpc_retryConfig gc) = int N \<and> (\<forall>k. \<exists>e. gcall k = Inl e \<and> isRetryableGrpcError gc e)"
    then obtain e where e: "gcall N = Inl e" by blast
    have l: "retry_loop (grpc_retryConfig gc) (isRetryableGrpcError gc) gcall 1 None =
        (backoff_trace (grpc_retryConfig gc) 1 (N - 1) @ [Call N], Inl (Some e))"
      using N a e by (intro retry_loop_exhausted) auto
    have r: "makeGrpcRequest gc gcall =
        (backoff_trace (grpc_retryConfig gc) 1 (N - 1) @ [Call N], Inl (convertGrpcError gc (Some e)))"
      unfolding makeGrpcRequest_def l by simp
    show "calls (fst (makeGrpcRequest gc gcall)) = [1..<Suc N]"
      unfolding r fst_conv by (rule c)
    show "\<exists>e. gcall N = Inl e \<and> snd (makeGrpcRequest gc gcall) = Inl (convertGrpcError gc (Some e))"
      using e r by simp
  }
  {
    assume a: "maxAttempts (kernel_retryConfig kc) = int N
        \<and> (\<forall>k. \<exists>e. kcall k = Inl e \<and> KernelClient_isRetryableError e)"
    then obtain e where e: "kcall N = Inl e" by blast
    have l: "retry_loop (kernel_retryConfig kc) KernelClient_isRetryableError kcall 1 None =
        (backoff_trace (kernel_retryConfig kc) 1 (N - 1) @ [Call N], Inl (Some e))"
      using N a e by (intro retry_loop_exhausted) auto
    have r: "executeKernelCommand kc kcall =
        (backoff_trace (kernel_retryConfig kc) 1 (N - 1) @ [Call N], Inl (convertError kc (Some e)))"
      unfolding executeKernelCommand_def l by simp
    show "calls (fst (executeKernelCommand kc kcall)) = [1..<Suc N]"
      unfolding r fst_conv by (rule c)
    show "\<exists>e. kcall N = Inl e \<and> snd (executeKernelCommand kc kcall) = Inl (convertError kc (Some e))"
      using e r by simp
  }
qed


theorem always_retryable_failure_exhausts_attempts_witness:
  "calls (fst (request
      \<lparr>http_apiKey = ''key'', http_baseUrl = ''https://api.huefy.com/api/v1/sdk'', http_timeout = 30000,
       http_retryConfig = HTTP_DEFAULT_RETRY_CONFIG\<rparr>
      (\<lambda>k. Inl (Huefy (TimeoutError 30000)) :: js_thrown + unit))) = [1..<Suc 3]
   \<and> snd (request
      \<lparr>http_apiKey = ''key'', http_baseUrl = ''https://api.huefy.com/api/v1/sdk'', http_timeout = 30000,
       http_retryConfig = HTTP_DEFAULT_RETRY_CONFIG\<rparr>
      (\<lambda>k. Inl (Huefy (TimeoutError 30000)) :: js_thrown + unit)) = Inl (Some (Huefy (TimeoutError 30000)))
   \<and> calls (fst (makeGrpcRequest
      \<lparr>grpc_apiKey = ''key'', grpc_endpoint = ''localhost:50051'', grpc_timeout = 30000,
       grpc_retryConfig = GRPC_DEFAULT_RETRY_CONFIG\<rparr>
      (\<lambda>k. Inl \<lparr>gcode = Some 14, gdetails = ''down'', gmessage = ''14 UNAVAILABLE: down''\<rparr>
         :: grpc_error + unit))) = [1..<Suc 3]
   \<and> snd (makeGrpcRequest
      \<lparr>grpc_apiKey = ''key'', grpc_endpoint = ''localhost:50051'', grpc_timeout = 30000,
       grpc_retryConfig = GRPC_DEFAULT_RETRY_CONFIG\<rparr>
      (\<lambda>k. Inl \<lparr>gcode = Some 14, gdetails = ''down'', gmessage = ''14 UNAVAILABLE: down''\<rparr>
         :: grpc_error + unit)) = Inl (ProviderError [] (Str []))
   \<and> calls (fst (executeKernelCommand
      \<lparr>kernel_apiKey = ''key'', kernel_endpoint = ''localhost:50051'', kernel_timeout = 30000,
       kernel_retryConfig = KERNEL_DEFAULT_RETRY_CONFIG, kernelBinaryPath = ''/pkg/bin/kernel-cli-linux-amd64''\<rparr>
      (\<lambda>k. Inl (Huefy (TimeoutError 30000)) :: js_thrown + unit))) = [1..<Suc 3]
   \<and> snd (executeKernelCommand
      \<lparr>kernel_apiKey = ''key'', kernel_endpoint = ''localhost:50051'', kernel_timeout = 30000,
       kernel_retryConfig = KERNEL_DEFAULT_RETRY_CONFIG, kernelBinaryPath = ''/pkg/bin/kernel-cli-linux-amd64''\<rparr>
      (\<lambda>k. Inl (Huefy (TimeoutError 30000)) :: js_thrown + unit)) = Inl (TimeoutError 30000)"
  using always_retryable_failure_exhausts_attempts
    [where N = 3
       and hc = "\<lparr>http_apiKey = ''key'', http_baseUrl = ''https://api.huefy.com/api/v1/sdk'',
                  http_timeout = 30000, http_retryConfig = HTTP_DEFAULT_RETRY_CONFIG\<rparr>"
       and hcall = "\<lambda>k. Inl (Huefy (TimeoutError 30000)) :: js_thrown + unit"
       and gc = "\<lparr>grpc_apiKey = ''key'', grpc_endpoint = ''localhost:50051'', grpc_timeout = 30000,
                  grpc_retryConfig = GRPC_DEFAULT_RETRY_CONFIG\<rparr>"
       and gcall = "\<lambda>k. Inl \<lparr>gcode = Some 14, gdetails = ''down'', gmessage = ''14 UNAVAILABLE: down''\<rparr>
                      :: grpc_error + unit"
       and kc = "\<lparr>kernel_apiKey = ''key'', kernel_endpoint = ''localhost:50051'', kernel_timeout = 30000,
                  kernel_retryConfig = KERNEL_DEFAULT_RETRY_CONFIG,
                  kernelBinaryPath = ''/pkg/bin/kernel-cli-linux-amd64''\<rparr>"
       and kcall = "\<lambda>k. Inl (Huefy (TimeoutError 30000)) :: js_thrown + unit"]
  by (simp add: HTTP_DEFAULT_RETRY_CONFIG_def GRPC_DEFAULT_RETRY_CONFIG_def KERNEL_DEFAULT_RETRY_CONFIG_def
      TimeoutError_def HuefyError_def isRetryableGrpcError_def KernelClient_isRetryableError_def
      convertGrpcError_def convertError_def ProviderError_def
      INVALID_ARGUMENT_def UNAUTHENTICATED_def PERMISSION_DENIED_def NOT_FOUND_def
      RESOURCE_EXHAUSTED_def UNAVAILABLE_def)


text \<open>
  With the retryable set of the specification (Network, Timeout, RateLimit, any status
  of 500 or more), which is the test \<open>isRetryableError\<close> of errors.ts, the statement
  fails on two transports. With three attempts allowed, a gRPC call that always ends in
  DEADLINE_EXCEEDED is attempted once and fails with a \<open>TimeoutError\<close>, and a kernel
  process that always exits with a rate-limit complaint is attempted once and fails with
  a \<open>RateLimitError\<close>; \<open>isRetryableError\<close> accepts both errors.
\<close>

theorem retryable_kind_attempted_once_counterexample:
  "maxAttempts (grpc_retryConfig
        \<lparr>grpc_apiKey = ''key'', grpc_endpoint = ''localhost:50051'', grpc_timeout = 30000,
        grpc_retryConfig = GRPC_DEFAULT_RETRY_CONFIG\<rparr>) = 3
   \<and> calls (fst (makeGrpcRequest
        \<lparr>grpc_apiKey = ''key'', grpc_endpoint = ''localhost:50051'', grpc_timeout = 30000,
        grpc_retryConfig = GRPC_DEFAULT_RETRY_CONFIG\<rparr>
        (\<lambda>k. Inl \<lparr>gcode = Some 4, gdetails = ''Deadline exceeded'',
                  gmessage = ''4 DEADLINE_EXCEEDED: Deadline exceeded''\<rparr> :: grpc_error + unit))) = [1]
   \<and> snd (makeGrpcRequest
        \<lparr>grpc_apiKey = ''key'', grpc_endpoint = ''localhost:50051'', grpc_timeout = 30000,
        grpc_retryConfig = GRPC_DEFAULT_RETRY_CONFIG\<rparr>
        (\<lambda>k. Inl \<lparr>gcode = Some 4, gdetails = ''Deadline exceeded'',
                  gmessage = ''4 DEADLINE_EXCEEDED: Deadline exceeded''\<rparr> :: grpc_error + unit)) = Inl (TimeoutError 30000)
   \<and> isRetryableError (Huefy (TimeoutError 30000))
   \<and> maxAttempts (kernel_retryConfig
        \<lparr>kernel_apiKey = ''key'', kernel_endpoint = ''localhost:50051'', kernel_timeout = 30000,
        kernel_retryConfig = KERNEL_DEFAULT_RETRY_CONFIG,
        kernelBinaryPath = ''/pkg/bin/kernel-cli-linux-amd64''\<rparr>) = 3
   \<and> calls (fst (executeKernelCommand
        \<lparr>kernel_apiKey = ''key'', kernel_endpoint = ''localhost:50051'', kernel_timeout = 30000,
        kernel_retryConfig = KERNEL_DEFAULT_RETRY_CONFIG,
        kernelBinaryPath = ''/pkg/bin/kernel-cli-linux-amd64''\<rparr>
        (\<lambda>k. Inl (NativeError ErrorN ''Error'' ''Kernel process exited with code 1: rate limit exceeded, retry later'') :: js_thrown + unit))) = [1]
   \<and> snd (executeKernelCommand
        \<lparr>kernel_apiKey = ''key'', kernel_endpoint = ''localhost:50051'', kernel_timeout = 30000,
        kernel_retryConfig = KERNEL_DEFAULT_RETRY_CONFIG,
        kernelBinaryPath = ''/pkg/bin/kernel-cli-linux-amd64''\<rparr>
        (\<lambda>k. Inl (NativeError ErrorN ''Error'' ''Kernel process exited with code 1: rate limit exceeded, retry later'') :: js_thrown + unit))
       = Inl (RateLimitError ''Kernel process exited with code 1: rate limit exceeded, retry later'' (Num 0))
   \<and> isRetryableError (Huefy (RateLimitError ''Kernel process exited with code 1: rate limit exceeded, retry later'' (Num 0)))"
proof -
  let ?kc = "\<lparr>kernel_apiKey = ''key'', kernel_endpoint = ''localhost:50051'', kernel_timeout = 30000,
        kernel_retryConfig = KERNEL_DEFAULT_RETRY_CONFIG,
        kernelBinaryPath = ''/pkg/bin/kernel-cli-linux-amd64''\<rparr>"
  let ?ke = "NativeError ErrorN ''Error'' ''Kernel process exited with code 1: rate limit exceeded, retry later''"
  let ?gc = "\<lparr>grpc_apiKey = ''key'', grpc_endpoint = ''localhost:50051'', grpc_timeout = 30000,
        grpc_retryConfig = GRPC_DEFAULT_RETRY_CONFIG\<rparr>"
  let ?ge = "\<lparr>gcode = Some 4, gdetails = ''Deadline exceeded'',
                  gmessage = ''4 DEADLINE_EXCEEDED: Deadline exceeded''\<rparr>"
  have nk: "\<not> KernelClient_isRetryableError ?ke"
    by (simp add: KernelClient_isRetryableError_def)
  have "retry_loop (kernel_retryConfig ?kc) KernelClient_isRetryableError
          (\<lambda>k. Inl ?ke :: js_thrown + unit) 1 None = ([Call 1], Inl (Some ?ke))"
    using nk by (intro retry_loop_break) (simp_all add: KERNEL_DEFAULT_RETRY_CONFIG_def)
  then have k: "executeKernelCommand ?kc (\<lambda>k. Inl ?ke :: js_thrown + unit)
      = ([Call 1], Inl (convertError ?kc (Some ?ke)))"
    unfolding executeKernelCommand_def by simp
  have kc: "convertError ?kc (Some ?ke) = RateLimitError ''Kernel process exited with code 1: rate limit exceeded, retry later'' (Num 0)"
    by (simp add: convertError_def)
  have ng: "\<not> isRetryableGrpcError ?gc ?ge"
    by (simp add: isRetryableGrpcError_def GRPC_DEFAULT_RETRY_CONFIG_def)
  have "retry_loop (grpc_retryConfig ?gc) (isRetryableGrpcError ?gc)
          (\<lambda>k. Inl ?ge :: grpc_error + unit) 1 None = ([Call 1], Inl (Some ?ge))"
    using ng by (intro retry_loop_break) (simp_all add: GRPC_DEFAULT_RETRY_CONFIG_def)
  then have g: "makeGrpcRequest ?gc (\<lambda>k. Inl ?ge :: grpc_error + unit)
      = ([Call 1], Inl (convertGrpcError ?gc (Some ?ge)))"
    unfolding makeGrpcRequest_def by simp
  have gc: "convertGrpcError ?gc (Some ?ge) = TimeoutError 30000"
    by (simp add: convertGrpcError_def grpc_status_defs)
  have r: "isRetryableError (Huefy (TimeoutError 30000))"
    "isRetryableError (Huefy (RateLimitError ''Kernel process exited with code 1: rate limit exceeded, retry later'' (Num 0)))"
    by (simp_all add: error_ctor_defs)
  have m: "maxAttempts (grpc_retryConfig ?gc) = 3" "maxAttempts (kernel_retryConfig ?kc) = 3"
    by (simp_all add: GRPC_DEFAULT_RETRY_CONFIG_def KERNEL_DEFAULT_RETRY_CONFIG_def)
  show ?thesis
    using r m by (simp only: k kc g gc fst_conv snd_conv calls.simps simp_thms)
qed

subsection \<open>The back-off delay\<close>

text \<open>
  C2. In each client's retry loop, when the attempts \<open>1, \<dots>, k\<close> fail with retryable
  errors and \<open>k < maxAttempts\<close>, the trace starts with those attempts, each followed by
  its sleep, and then attempt \<open>k + 1\<close>; the sleep before attempt \<open>k + 1\<close> is exactly
  \<open>min (initialDelay * backoffMultiplier ^ (k - 1)) maxDelay\<close>, a function of the
  configuration and \<open>k\<close> alone (no jitter).
\<close>

theorem backoff_delay_before_next_attempt:
  "1 \<le> k \<Longrightarrow>
   (int k < maxAttempts (http_retryConfig hc)
      \<and> (\<forall>j. 1 \<le> j \<and> j \<le> k \<longrightarrow> (\<exists>e. hcall j = Inl e \<and> isRetryableError e))
    \<longrightarrow> (\<exists>rest. fst (request hc hcall) = backoff_trace (http_retryConfig hc) 1 k @ Call (Suc k) # rest)
        \<and> sleeps (fst (request hc hcall)) ! (k - 1) =
            min (initialDelay (http_retryConfig hc) * backoffMultiplier (http_retryConfig hc) ^ (k - 1))
                (maxDelay (http_retryConfig hc)))
   \<and> (int k < maxAttempts (grpc_retryConfig gc)
      \<and> (\<forall>j. 1 \<le> j \<and> j \<le> k \<longrightarrow> (\<exists>e. gcall j = Inl e \<and> isRetryableGrpcError gc e))
    \<longrightarrow> (\<exists>rest. fst (makeGrpcRequest gc gcall) = backoff_trace (grpc_retryConfig gc) 1 k @ Call (Suc k) # rest)
        \<and> sleeps (fst (makeGrpcRequest gc gcall)) ! (k - 1) =
            min (initialDelay (grpc_retryConfig gc) * backoffMultiplier (grpc_retryConfig gc) ^ (k - 1))
                (maxDelay (grpc_retryConfig gc)))
   \<and> (int k < maxAttempts (kernel_retryConfig kc)
      \<and> (\<forall>j. 1 \<le> j \<and> j \<le> k \<longrightarrow> (\<exists>e. kcall j = Inl e \<and> KernelClient_isRetryableError e))
    \<longrightarrow> (\<exists>rest. fst (executeKernelCommand kc kcall) =
                 backoff_trace (kernel_retryConfig kc) 1 k @ Call (Suc k) # rest)
        \<and> sleeps (fst (executeKernelCommand kc kcall)) ! (k - 1) =
            min (initialDelay (kernel_retryConfig kc) * backoffMultiplier (kernel_retryConfig kc) ^ (k - 1))
                (maxDelay (kernel_retryConfig kc)))"
proof (intro conjI impI)
  assume k: "1 \<le> k"
  {
    assume a: "int k < maxAttempts (http_retryConfig hc)
      \<and> (\<forall>j. 1 \<le> j \<and> j \<le> k \<longrightarrow> (\<exists>e. hcall j = Inl e \<and> isRetryableError e))"
    then obtain rest where r: "fst (request hc hcall) = backoff_trace (http_retryConfig hc) 1 k @ Call (Suc k) # rest"
      unfolding fst_request using retry_loop_backoff_prefix [of k "http_retryConfig hc" hcall isRetryableError]
      by blast
    show "\<exists>rest. fst (request hc hcall) = backoff_trace (http_retryConfig hc) 1 k @ Call (Suc k) # rest"
      using r by blast
    show "sleeps (fst (request hc hcall)) ! (k - 1) =
            min (initialDelay (http_retryConfig hc) * backoffMultiplier (http_retryConfig hc) ^ (k - 1))
                (maxDelay (http_retryConfig hc))"
      using k r by (rule kth_sleep)
  }
  {
    assume a: "int k < maxAttempts (grpc_retryConfig gc)
      \<and> (\<forall>j. 1 \<le> j \<and> j \<le> k \<longrightarrow> (\<exists>e. gcall j = Inl e \<and> isRetryableGrpcError gc e))"
    then obtain rest where r: "fst (makeGrpcRequest gc gcall) = backoff_trace (grpc_retryConfig gc) 1 k @ Call (Suc k) # rest"
      unfolding fst_makeGrpcRequest
      using retry_loop_backoff_prefix [of k "grpc_retryConfig gc" gcall "isRetryableGrpcError gc"]
      by blast
    show "\<exists>rest. fst (makeGrpcRequest gc gcall) = backoff_trace (grpc_retryConfig gc) 1 k @ Call (Suc k) # rest"
      using r by blast
    show "sleeps (fst (makeGrpcRequest gc gcall)) ! (k - 1) =
            min (initialDelay (grpc_retryConfig gc) * backoffMultiplier (grpc_retryConfig gc) ^ (k - 1))
                (maxDelay (grpc_retryConfig gc))"
      using k r by (rule kth_sleep)
  }
  {
    assume a: "int k < maxAttempts (kernel_retryConfig kc)
      \<and> (\<forall>j. 1 \<le> j \<and> j \<le> k \<longrightarrow> (\<exists>e. kcall j = Inl e \<and> KernelClient_isRetryableError e))"
    then obtain rest where r: "fst (executeKernelCommand kc kcall) =
        backoff_trace (kernel_retryConfig kc) 1 k @ Call (Suc k) # rest"
      unfolding fst_executeKernelCommand
      using retry_loop_backoff_prefix [of k "kernel_retryConfig kc" kcall KernelClient_isRetryableError]
      by blast
    show "\<exists>rest. fst (executeKernelCommand kc kcall) =
                 backoff_trace (kernel_retryConfig kc) 1 k @ Call (Suc k) # rest"
      using r by blast
    show "sleeps (fst (executeKernelCommand kc kcall)) ! (k - 1) =
            min (initialDelay (kernel_retryConfig kc) * backoffMultiplier (kernel_retryConfig kc) ^ (k - 1))
                (maxDelay (kernel_retryConfig kc))"
      using k r by (rule kth_sleep)
  }
qed


theorem backoff_delay_before_next_attempt_witness:
  "sleeps (fst (request
      \<lparr>http_apiKey = ''key'', http_baseUrl = ''https://api.huefy.com/api/v1/sdk'', http_timeout = 30000,
       http_retryConfig = HTTP_DEFAULT_RETRY_CONFIG\<rparr>
      (\<lambda>k. Inl (Huefy (TimeoutError 30000)) :: js_thrown + unit))) ! (2 - 1) = 2000
   \<and> sleeps (fst (makeGrpcRequest
      \<lparr>grpc_apiKey = ''key'', grpc_endpoint = ''localhost:50051'', grpc_timeout = 30000,
       grpc_retryConfig = GRPC_DEFAULT_RETRY_CONFIG\<rparr>
      (\<lambda>k. Inl \<lparr>gcode = Some 14, gdetails = ''down'', gmessage = ''14 UNAVAILABLE: down''\<rparr>
         :: grpc_error + unit))) ! (2 - 1) = 2000
   \<and> sleeps (fst (executeKernelCommand
      \<lparr>kernel_apiKey = ''key'', kernel_endpoint = ''localhost:50051'', kernel_timeout = 30000,
       kernel_retryConfig = KERNEL_DEFAULT_RETRY_CONFIG, kernelBinaryPath = ''/pkg/bin/kernel-cli-linux-amd64''\<rparr>
      (\<lambda>k. Inl (Huefy (TimeoutError 30000)) :: js_thrown + unit))) ! (2 - 1) = 2000"
  using backoff_delay_before_next_attempt
    [where k = 2
       and hc = "\<lparr>http_apiKey = ''key'', http_baseUrl = ''https://api.huefy.com/api/v1/sdk'',
                  http_timeout = 30000, http_retryConfig = HTTP_DEFAULT_RETRY_CONFIG\<rparr>"
       and hcall = "\<lambda>k. Inl (Huefy (TimeoutError 30000)) :: js_thrown + unit"
       and gc = "\<lparr>grpc_apiKey = ''key'', grpc_endpoint = ''localhost:50051'', grpc_timeout = 30000,
                  grpc_retryConfig = GRPC_DEFAULT_RETRY_CONFIG\<rparr>"
       and gcall = "\<lambda>k. Inl \<lparr>gcode = Some 14, gdetails = ''down'', gmessage = ''14 UNAVAILABLE: down''\<rparr>
                      :: grpc_error + unit"
       and kc = "\<lparr>kernel_apiKey = ''key'', kernel_endpoint = ''localhost:50051'', kernel_timeout = 30000,
                  kernel_retryConfig = KERNEL_DEFAULT_RETRY_CONFIG,
                  kernelBinaryPath = ''/pkg/bin/kernel-cli-linux-amd64''\<rparr>"
       and kcall = "\<lambda>k. Inl (Huefy (TimeoutError 30000)) :: js_thrown + unit"]
  by (simp add: HTTP_DEFAULT_RETRY_CONFIG_def GRPC_DEFAULT_RETRY_CONFIG_def KERNEL_DEFAULT_RETRY_CONFIG_def
      TimeoutError_def HuefyError_def isRetryableGrpcError_def KernelClient_isRetryableError_def)

subsection \<open>Which errors each transport retries\<close>

text \<open>
  C3, as the code has it. Each client has its own retryability test.
  The HTTP client retries an error exactly when it is a \<open>HuefyError\<close> that is a
  \<open>NetworkError\<close> or a \<open>TimeoutError\<close>, or whose status code is at least 500 or equal to
  429; so it retries every \<open>RateLimitError\<close>.
  A gRPC client built by its constructor retries a raw status exactly when
  \<open>convertGrpcError\<close> classifies it as \<open>RateLimitError\<close>, as \<open>ProviderError\<close> or with
  code \<open>INTERNAL_ERROR\<close> (the statuses RESOURCE_EXHAUSTED, UNAVAILABLE and INTERNAL);
  it retries neither a deadline expiry nor a status classified as \<open>NetworkError\<close>.
  The kernel client retries a raw failure exactly when it is a \<open>TimeoutError\<close> or a
  \<open>NetworkError\<close>, or its message contains \<open>ECONNREFUSED\<close> or \<open>timeout\<close>.
\<close>

theorem retryable_sets_per_transport:
  "(isRetryableError x =
      (\<exists>h. x = Huefy h \<and> (cls h = NetworkErrorC \<or> cls h = TimeoutErrorC
         \<or> (\<exists>s. statusCode h = Some s \<and> (500 \<le> s \<or> s = 429)))))
   \<and> isRetryableError (Huefy (RateLimitError m d))
   \<and> (GrpcClient production init_failure config = Inr gc \<longrightarrow>
        isRetryableGrpcError gc e =
          (cls (convertGrpcError gc (Some e)) = RateLimitErrorC
           \<or> cls (convertGrpcError gc (Some e)) = ProviderErrorC
           \<or> code (convertGrpcError gc (Some e)) = ''INTERNAL_ERROR''))
   \<and> (KernelClient_isRetryableError y =
        (instanceof_class y TimeoutErrorC \<or> instanceof_class y NetworkErrorC
         \<or> str_includes (error_message y) ''ECONNREFUSED''
         \<or> str_includes (error_message y) ''timeout''))"
proof (intro conjI impI)
  show "isRetryableError x =
      (\<exists>h. x = Huefy h \<and> (cls h = NetworkErrorC \<or> cls h = TimeoutErrorC
         \<or> (\<exists>s. statusCode h = Some s \<and> (500 \<le> s \<or> s = 429))))"
  proof (cases x)
    case (Huefy h)
    then show ?thesis
      by (simp only: isRetryableError_Huefy js_thrown.inject) blast
  qed simp_all
  show "isRetryableError (Huefy (RateLimitError m d))"
    by (simp add: RateLimitError_def HuefyError_def)
  show "KernelClient_isRetryableError y =
        (instanceof_class y TimeoutErrorC \<or> instanceof_class y NetworkErrorC
         \<or> str_includes (error_message y) ''ECONNREFUSED''
         \<or> str_includes (error_message y) ''timeout'')"
    by (simp add: KernelClient_isRetryableError_def)
next
  assume "GrpcClient production init_failure config = Inr gc"
  then have codes: "retryableStatusCodes (grpc_retryConfig gc) = [14, 13, 8]"
    by (rule GrpcClient_retryableStatusCodes)
  show "isRetryableGrpcError gc e =
          (cls (convertGrpcError gc (Some e)) = RateLimitErrorC
           \<or> cls (convertGrpcError gc (Some e)) = ProviderErrorC
           \<or> code (convertGrpcError gc (Some e)) = ''INTERNAL_ERROR'')"
  proof (cases "gcode e")
    case None
    then show ?thesis
      by (simp add: isRetryableGrpcError_def convertGrpcError_def Let_def error_ctor_defs)
  next
    case (Some c)
    then show ?thesis
      by (simp add: isRetryableGrpcError_def codes convertGrpcError_def Let_def grpc_status_defs
          error_ctor_defs)
  qed
qed


theorem retryable_sets_per_transport_witness:
  "GrpcClient False None
     \<lparr>apiKey = ''key'', baseUrl = None, timeout = None, retryAttempts = None, retryDelay = None\<rparr> =
     Inr \<lparr>grpc_apiKey = ''key'', grpc_endpoint = ''localhost:50051'', grpc_timeout = 30000,
          grpc_retryConfig = GRPC_DEFAULT_RETRY_CONFIG\<rparr>
   \<and> isRetryableGrpcError
        \<lparr>grpc_apiKey = ''key'', grpc_endpoint = ''localhost:50051'', grpc_timeout = 30000,
         grpc_retryConfig = GRPC_DEFAULT_RETRY_CONFIG\<rparr>
        \<lparr>gcode = Some 8, gdetails = ''quota'', gmessage = ''8 RESOURCE_EXHAUSTED: quota''\<rparr>
   \<and> cls (convertGrpcError
        \<lparr>grpc_apiKey = ''key'', grpc_endpoint = ''localhost:50051'', grpc_timeout = 30000,
         grpc_retryConfig = GRPC_DEFAULT_RETRY_CONFIG\<rparr>
        (Some \<lparr>gcode = Some 8, gdetails = ''quota'', gmessage = ''8 RESOURCE_EXHAUSTED: quota''\<rparr>))
       = RateLimitErrorC
   \<and> isRetryableError (Huefy (RateLimitError ''quota'' Undefined))
   \<and> KernelClient_isRetryableError (NativeError ErrorN ''Error'' ''connect ECONNREFUSED 127.0.0.1:50051'')"
  using retryable_sets_per_transport
    [where production = False and init_failure = None
       and config = "\<lparr>apiKey = ''key'', baseUrl = None, timeout = None, retryAttempts = None,
                        retryDelay = None\<rparr>"
       and gc = "\<lparr>grpc_apiKey = ''key'', grpc_endpoint = ''localhost:50051'', grpc_timeout = 30000,
                  grpc_retryConfig = GRPC_DEFAULT_RETRY_CONFIG\<rparr>"
       and e = "\<lparr>gcode = Some 8, gdetails = ''quota'', gmessage = ''8 RESOURCE_EXHAUSTED: quota''\<rparr>"
       and m = "''quota''" and d = Undefined
       and x = "Huefy (RateLimitError ''quota'' Undefined)"
       and y = "NativeError ErrorN ''Error'' ''connect ECONNREFUSED 127.0.0.1:50051''"]
  by (simp add: GrpcClient_def getGrpcEndpoint_def num_or_def GRPC_DEFAULT_RETRY_CONFIG_def
      convertGrpcError_def grpc_status_defs error_ctor_defs)

text \<open>
  The retryable set of the specification is not the test of two of the transports.
  With three attempts allowed, a kernel failure that \<open>convertError\<close> classifies as
  \<open>RateLimitError\<close> is attempted once, and so is a gRPC deadline expiry, classified as
  \<open>TimeoutError\<close>.
\<close>

theorem rate_limit_and_timeout_not_retried_counterexample:
  "executeKernelCommand
      \<lparr>kernel_apiKey = ''key'', kernel_endpoint = ''localhost:50051'', kernel_timeout = 30000,
       kernel_retryConfig = KERNEL_DEFAULT_RETRY_CONFIG, kernelBinaryPath = ''/pkg/bin/kernel-cli-linux-amd64''\<rparr>
      (\<lambda>k. Inl (NativeError ErrorN ''Error'' ''Kernel process exited with code 1: rate limit exceeded'')
         :: js_thrown + unit)
     = ([Call 1],
        Inl (RateLimitError ''Kernel process exited with code 1: rate limit exceeded'' (Num 0)))
   \<and> makeGrpcRequest
      \<lparr>grpc_apiKey = ''key'', grpc_endpoint = ''localhost:50051'', grpc_timeout = 30000,
       grpc_retryConfig = GRPC_DEFAULT_RETRY_CONFIG\<rparr>
      (\<lambda>k. Inl \<lparr>gcode = Some 4, gdetails = ''Deadline exceeded'',
                  gmessage = ''4 DEADLINE_EXCEEDED: Deadline exceeded''\<rparr> :: grpc_error + unit)
     = ([Call 1], Inl (TimeoutError 30000))"
proof -
  let ?kc = "\<lparr>kernel_apiKey = ''key'', kernel_endpoint = ''localhost:50051'', kernel_timeout = 30000,
       kernel_retryConfig = KERNEL_DEFAULT_RETRY_CONFIG, kernelBinaryPath = ''/pkg/bin/kernel-cli-linux-amd64''\<rparr>"
  let ?ke = "NativeError ErrorN ''Error'' ''Kernel process exited with code 1: rate limit exceeded''"
  let ?gc = "\<lparr>grpc_apiKey = ''key'', grpc_endpoint = ''localhost:50051'', grpc_timeout = 30000,
       grpc_retryConfig = GRPC_DEFAULT_RETRY_CONFIG\<rparr>"
  let ?ge = "\<lparr>gcode = Some 4, gdetails = ''Deadline exceeded'',
                  gmessage = ''4 DEADLINE_EXCEEDED: Deadline exceeded''\<rparr>"
  have nk: "\<not> KernelClient_isRetryableError ?ke"
    by (simp add: KernelClient_isRetryableError_def)
  have "retry_loop (kernel_retryConfig ?kc) KernelClient_isRetryableError
          (\<lambda>k. Inl ?ke :: js_thrown + unit) 1 None = ([Call 1], Inl (Some ?ke))"
    using nk by (intro retry_loop_break) (simp_all add: KERNEL_DEFAULT_RETRY_CONFIG_def)
  then have k: "executeKernelCommand ?kc (\<lambda>k. Inl ?ke :: js_thrown + unit)
      = ([Call 1], Inl (convertError ?kc (Some ?ke)))"
    unfolding executeKernelCommand_def by simp
  have kc: "convertError ?kc (Some ?ke)
      = RateLimitError ''Kernel process exited with code 1: rate limit exceeded'' (Num 0)"
    by (simp add: convertError_def)
  have ng: "\<not> isRetryableGrpcError ?gc ?ge"
    by (simp add: isRetryableGrpcError_def GRPC_DEFAULT_RETRY_CONFIG_def)
  have "retry_loop (grpc_retryConfig ?gc) (isRetryableGrpcError ?gc)
          (\<lambda>k. Inl ?ge :: grpc_error + unit) 1 None = ([Call 1], Inl (Some ?ge))"
    using ng by (intro retry_loop_break) (simp_all add: GRPC_DEFAULT_RETRY_CONFIG_def)
  then have g: "makeGrpcRequest ?gc (\<lambda>k. Inl ?ge :: grpc_error + unit)
      = ([Call 1], Inl (convertGrpcError ?gc (Some ?ge)))"
    unfolding makeGrpcRequest_def by simp
  have gc: "convertGrpcError ?gc (Some ?ge) = TimeoutError 30000"
    by (simp add: convertGrpcError_def grpc_status_defs)
  show ?thesis
    by (simp only: k kc g gc simp_thms)
qed

subsection \<open>A failure of a class that is never retried\<close>

text \<open>
  C4, as the code has it. With more than one attempt allowed, a first attempt that fails
  with an error of a class that is never retried (\<open>AuthenticationError\<close>,
  \<open>TemplateNotFoundError\<close>, \<open>InvalidTemplateDataError\<close>, \<open>InvalidRecipientError\<close>,
  \<open>ValidationError\<close>) is the only attempt, no back-off sleep happens, and that
  classified error is what the call fails with: on the HTTP client for an error built by
  the constructor of its class, on a gRPC client built by its constructor for a status
  that \<open>convertGrpcError\<close> classifies so, and on the kernel client for a raw failure that
  \<open>convertError\<close> classifies so and whose message contains neither \<open>ECONNREFUSED\<close> nor
  \<open>timeout\<close>.
\<close>

theorem non_retryable_failure_single_attempt:
  "(1 < maxAttempts (http_retryConfig hc) \<and> hcall 1 = Inl (Huefy h) \<and> well_formed h
      \<and> cls h \<in> set non_retryable_classes
     \<longrightarrow> request hc hcall = ([Call 1], Inl (Some (Huefy h))))
   \<and> (GrpcClient production init_failure config = Inr gc \<and> 1 < maxAttempts (grpc_retryConfig gc)
      \<and> gcall 1 = Inl e \<and> cls (convertGrpcError gc (Some e)) \<in> set non_retryable_classes
     \<longrightarrow> makeGrpcRequest gc gcall = ([Call 1], Inl (convertGrpcError gc (Some e))))
   \<and> (1 < maxAttempts (kernel_retryConfig kc) \<and> kcall 1 = Inl y
      \<and> cls (convertError kc (Some y)) \<in> set non_retryable_classes
      \<and> \<not> str_includes (error_message y) ''ECONNREFUSED''
      \<and> \<not> str_includes (error_message y) ''timeout''
     \<longrightarrow> executeKernelCommand kc kcall = ([Call 1], Inl (convertError kc (Some y))))"
proof (intro conjI impI)
  assume a: "1 < maxAttempts (http_retryConfig hc) \<and> hcall 1 = Inl (Huefy h) \<and> well_formed h
      \<and> cls h \<in> set non_retryable_classes"
  then have "\<not> isRetryableError (Huefy h)"
    by (intro non_retryable_class_not_retried) simp_all
  then show "request hc hcall = ([Call 1], Inl (Some (Huefy h)))"
    unfolding request_def using a by (intro retry_loop_break) simp_all
next
  assume a: "GrpcClient production init_failure config = Inr gc \<and> 1 < maxAttempts (grpc_retryConfig gc)
      \<and> gcall 1 = Inl e \<and> cls (convertGrpcError gc (Some e)) \<in> set non_retryable_classes"
  then have "\<not> isRetryableGrpcError gc e"
    using grpc_non_retryable_class_not_retried [of production init_failure config gc e] by simp
  then have "retry_loop (grpc_retryConfig gc) (isRetryableGrpcError gc) gcall 1 None
      = ([Call 1], Inl (Some e))"
    using a by (intro retry_loop_break) simp_all
  then show "makeGrpcRequest gc gcall = ([Call 1], Inl (convertGrpcError gc (Some e)))"
    unfolding makeGrpcRequest_def by simp
next
  assume a: "1 < maxAttempts (kernel_retryConfig kc) \<and> kcall 1 = Inl y
      \<and> cls (convertError kc (Some y)) \<in> set non_retryable_classes
      \<and> \<not> str_includes (error_message y) ''ECONNREFUSED''
      \<and> \<not> str_includes (error_message y) ''timeout''"
  then have "\<not> KernelClient_isRetryableError y"
    by (intro kernel_non_retryable_class_not_retried [of kc]) simp_all
  then have "retry_loop (kernel_retryConfig kc) KernelClient_isRetryableError kcall 1 None
      = ([Call 1], Inl (Some y))"
    using a by (intro retry_loop_break) simp_all
  then show "executeKernelCommand kc kcall = ([Call 1], Inl (convertError kc (Some y)))"
    unfolding executeKernelCommand_def by simp
qed


theorem non_retryable_failure_single_attempt_witness:
  "request
      \<lparr>http_apiKey = ''key'', http_baseUrl = ''https://api.huefy.com/api/v1/sdk'', http_timeout = 30000,
       http_retryConfig = HTTP_DEFAULT_RETRY_CONFIG\<rparr>
      (\<lambda>k. Inl (Huefy (AuthenticationError ''Invalid API key'' Undefined)) :: js_thrown + unit)
     = ([Call 1], Inl (Some (Huefy (AuthenticationError ''Invalid API key'' Undefined))))
   \<and> makeGrpcRequest
      \<lparr>grpc_apiKey = ''key'', grpc_endpoint = ''localhost:50051'', grpc_timeout = 30000,
       grpc_retryConfig = GRPC_DEFAULT_RETRY_CONFIG\<rparr>
      (\<lambda>k. Inl \<lparr>gcode = Some 16, gdetails = ''bad key'', gmessage = ''16 UNAUTHENTICATED: bad key''\<rparr>
         :: grpc_error + unit)
     = ([Call 1], Inl (AuthenticationError ''bad key'' Undefined))
   \<and> executeKernelCommand
      \<lparr>kernel_apiKey = ''key'', kernel_endpoint = ''localhost:50051'', kernel_timeout = 30000,
       kernel_retryConfig = KERNEL_DEFAULT_RETRY_CONFIG, kernelBinaryPath = ''/pkg/bin/kernel-cli-linux-amd64''\<rparr>
      (\<lambda>k. Inl (NativeError ErrorN ''Error'' ''Kernel process exited with code 1: invalid API key'')
         :: js_thrown + unit)
     = ([Call 1], Inl (AuthenticationError ''Kernel process exited with code 1: invalid API key'' Undefined))"
  using non_retryable_failure_single_attempt
    [where hc = "\<lparr>http_apiKey = ''key'', http_baseUrl = ''https://api.huefy.com/api/v1/sdk'',
                  http_timeout = 30000, http_retryConfig = HTTP_DEFAULT_RETRY_CONFIG\<rparr>"
       and hcall = "\<lambda>k. Inl (Huefy (AuthenticationError ''Invalid API key'' Undefined)) :: js_thrown + unit"
       and h = "AuthenticationError ''Invalid API key'' Undefined"
       and production = False and init_failure = None
       and config = "\<lparr>apiKey = ''key'', baseUrl = None, timeout = None, retryAttempts = None,
                        retryDelay = None\<rparr>"
       and gc = "\<lparr>grpc_apiKey = ''key'', grpc_endpoint = ''localhost:50051'', grpc_timeout = 30000,
                  grpc_retryConfig = GRPC_DEFAULT_RETRY_CONFIG\<rparr>"
       and gcall = "\<lambda>k. Inl \<lparr>gcode = Some 16, gdetails = ''bad key'',
                                gmessage = ''16 UNAUTHENTICATED: bad key''\<rparr> :: grpc_error + unit"
       and e = "\<lparr>gcode = Some 16, gdetails = ''bad key'', gmessage = ''16 UNAUTHENTICATED: bad key''\<rparr>"
       and kc = "\<lparr>kernel_apiKey = ''key'', kernel_endpoint = ''localhost:50051'', kernel_timeout = 30000,
                  kernel_retryConfig = KERNEL_DEFAULT_RETRY_CONFIG,
                  kernelBinaryPath = ''/pkg/bin/kernel-cli-linux-amd64''\<rparr>"
       and kcall = "\<lambda>k. Inl (NativeError ErrorN ''Error'' ''Kernel process exited with code 1: invalid API key'')
                      :: js_thrown + unit"
       and y = "NativeError ErrorN ''Error'' ''Kernel process exited with code 1: invalid API key''"]
  by (simp add: HTTP_DEFAULT_RETRY_CONFIG_def GRPC_DEFAULT_RETRY_CONFIG_def KERNEL_DEFAULT_RETRY_CONFIG_def
      GrpcClient_def getGrpcEndpoint_def num_or_def well_formed_def non_retryable_classes_def
      convertGrpcError_def convertError_def grpc_status_defs error_ctor_defs)

text \<open>
  Without the condition on the message the kernel client retries: its test looks at the
  text of the raw failure before \<open>convertError\<close> classifies it. A child that exits with
  a complaint about the API key that mentions a timeout is run three times, with sleeps
  of 1000 and 2000 ms, and the call then fails with an \<open>AuthenticationError\<close>.
\<close>

theorem kernel_authentication_failure_retried_counterexample:
  "executeKernelCommand
      \<lparr>kernel_apiKey = ''key'', kernel_endpoint = ''localhost:50051'', kernel_timeout = 30000,
       kernel_retryConfig = KERNEL_DEFAULT_RETRY_CONFIG, kernelBinaryPath = ''/pkg/bin/kernel-cli-linux-amd64''\<rparr>
      (\<lambda>k. Inl (NativeError ErrorN ''Error''
                   ''Kernel process exited with code 1: API key validation timeout'') :: js_thrown + unit)
     = ([Call 1, Sleep 1000, Call 2, Sleep 2000, Call 3],
        Inl (AuthenticationError ''Kernel process exited with code 1: API key validation timeout'' Undefined))"
proof -
  let ?kc = "\<lparr>kernel_apiKey = ''key'', kernel_endpoint = ''localhost:50051'', kernel_timeout = 30000,
       kernel_retryConfig = KERNEL_DEFAULT_RETRY_CONFIG, kernelBinaryPath = ''/pkg/bin/kernel-cli-linux-amd64''\<rparr>"
  let ?e = "NativeError ErrorN ''Error'' ''Kernel process exited with code 1: API key validation timeout''"
  have r: "KernelClient_isRetryableError ?e"
    by (simp add: KernelClient_isRetryableError_def)
  have "retry_loop (kernel_retryConfig ?kc) KernelClient_isRetryableError
          (\<lambda>k. Inl ?e :: js_thrown + unit) 1 None
        = (backoff_trace (kernel_retryConfig ?kc) 1 (3 - 1) @ [Call 3], Inl (Some ?e))"
    using r by (intro retry_loop_exhausted) (simp_all add: KERNEL_DEFAULT_RETRY_CONFIG_def)
  moreover have "backoff_trace (kernel_retryConfig ?kc) 1 (3 - 1) = [Call 1, Sleep 1000, Call 2, Sleep 2000]"
    by (simp add: backoff_trace_def backoff_delay_def KERNEL_DEFAULT_RETRY_CONFIG_def upt_conv_Cons)
  moreover have "convertError ?kc (Some ?e)
        = AuthenticationError ''Kernel process exited with code 1: API key validation timeout'' Undefined"
    by (simp add: convertError_def)
  ultimately show ?thesis
    unfolding executeKernelCommand_def by simp
qed

subsection \<open>The gRPC status table\<close>

text \<open>
  C5, as the code has it. \<open>convertGrpcError\<close> maps a numeric gRPC status to an error
  class and code by a fixed table: UNAUTHENTICATED and PERMISSION_DENIED to
  \<open>AuthenticationError\<close>, NOT_FOUND to \<open>TemplateNotFoundError\<close>, RESOURCE_EXHAUSTED to
  \<open>RateLimitError\<close>, UNAVAILABLE to \<open>ProviderError\<close>, DEADLINE_EXCEEDED to
  \<open>TimeoutError\<close>, INVALID_ARGUMENT to \<open>ValidationError\<close>, INTERNAL to a base
  \<open>HuefyError\<close> with code \<open>INTERNAL_ERROR\<close>, and every other status (also a code that is
  not a number) to \<open>NetworkError\<close>.
\<close>

theorem convertGrpcError_table:
  "cls (convertGrpcError this (Some \<lparr>gcode = Some c, gdetails = d, gmessage = m\<rparr>)) =
     (if c = UNAUTHENTICATED \<or> c = PERMISSION_DENIED then AuthenticationErrorC
      else if c = NOT_FOUND then TemplateNotFoundErrorC
      else if c = RESOURCE_EXHAUSTED then RateLimitErrorC
      else if c = UNAVAILABLE then ProviderErrorC
      else if c = DEADLINE_EXCEEDED then TimeoutErrorC
      else if c = INVALID_ARGUMENT then ValidationErrorC
      else if c = INTERNAL then HuefyErrorC
      else NetworkErrorC)
   \<and> code (convertGrpcError this (Some \<lparr>gcode = Some c, gdetails = d, gmessage = m\<rparr>)) =
     (if c = UNAUTHENTICATED \<or> c = PERMISSION_DENIED then ''INVALID_API_KEY''
      else if c = NOT_FOUND then ''TEMPLATE_NOT_FOUND''
      else if c = RESOURCE_EXHAUSTED then ''RATE_LIMIT_EXCEEDED''
      else if c = UNAVAILABLE then ''PROVIDER_ERROR''
      else if c = DEADLINE_EXCEEDED then ''TIMEOUT_ERROR''
      else if c = INVALID_ARGUMENT then ''VALIDATION_ERROR''
      else if c = INTERNAL then ''INTERNAL_ERROR''
      else ''NETWORK_ERROR'')
   \<and> cls (convertGrpcError this (Some \<lparr>gcode = None, gdetails = d, gmessage = m\<rparr>)) = NetworkErrorC"
  by (simp add: convertGrpcError_def grpc_status_defs error_ctor_defs)

text \<open>
  The table of the specification sends every status outside its seven entries to
  Network. PERMISSION_DENIED (7) is outside them and is classified as Authentication.
\<close>

theorem convertGrpcError_permission_denied_counterexample:
  "cls (convertGrpcError
          \<lparr>grpc_apiKey = ''key'', grpc_endpoint = ''localhost:50051'', grpc_timeout = 30000,
           grpc_retryConfig = GRPC_DEFAULT_RETRY_CONFIG\<rparr>
          (Some \<lparr>gcode = Some 7, gdetails = ''denied'', gmessage = ''7 PERMISSION_DENIED: denied''\<rparr>))
     = AuthenticationErrorC
   \<and> cls (convertGrpcError
          \<lparr>grpc_apiKey = ''key'', grpc_endpoint = ''localhost:50051'', grpc_timeout = 30000,
           grpc_retryConfig = GRPC_DEFAULT_RETRY_CONFIG\<rparr>
          (Some \<lparr>gcode = Some 7, gdetails = ''denied'', gmessage = ''7 PERMISSION_DENIED: denied''\<rparr>))
     \<noteq> NetworkErrorC"
  by (simp add: convertGrpcError_def grpc_status_defs error_ctor_defs)


subsection \<open>Every failure surfaces as a HuefyError\<close>

text \<open>
  C6, as the code has it. Classification is total: the catch block of \<open>makeRequest\<close>
  turns whatever is thrown into a \<open>HuefyError\<close>, so an HTTP client that makes at least
  one attempt either returns a response or throws a \<open>HuefyError\<close>; \<open>convertGrpcError\<close> and
  \<open>convertError\<close> return a \<open>HuefyError\<close> for every raw failure, also for \<open>null\<close>. A raw
  failure that is not itself a \<open>HuefyError\<close> gets one of the SDK's fixed codes; one that
  nothing recognises gets \<open>UNEXPECTED_ERROR\<close> from the HTTP client, \<open>NETWORK_ERROR\<close> from
  the gRPC client and \<open>KERNEL_ERROR\<close> from the kernel client. The code of a remote error
  payload is kept as the remote sent it, and a \<open>HuefyError\<close> rejected by the kernel
  process is passed on unchanged.
\<close>

theorem failures_surface_as_HuefyError:
  "(\<exists>h. makeRequest_catch hc tmo x = Huefy h)
   \<and> (\<not> instanceof_HuefyError x \<longrightarrow>
        (\<exists>h. makeRequest_catch hc tmo x = Huefy h
           \<and> code h \<in> set [''TIMEOUT_ERROR'', ''NETWORK_ERROR'', ''UNEXPECTED_ERROR'']))
   \<and> makeRequest_catch hc tmo (ThrownPrim p)
       = Huefy (HuefyError (''Unexpected error: '' @ prim_to_string p) ''UNEXPECTED_ERROR'' None Undefined)
   \<and> (1 \<le> maxAttempts (http_retryConfig hc) \<longrightarrow>
        (\<exists>h. snd (request hc (\<lambda>k. makeRequest hc as_error tmo (outcomes k))) = Inl (Some (Huefy h)))
        \<or> (\<exists>r. snd (request hc (\<lambda>k. makeRequest hc as_error tmo (outcomes k))) = Inr r))
   \<and> code (createErrorFromResponse data status) = resp_code data
   \<and> code (convertGrpcError gc ge) \<in> set
        [''UNKNOWN_ERROR'', ''VALIDATION_ERROR'', ''INVALID_API_KEY'', ''TEMPLATE_NOT_FOUND'',
         ''RATE_LIMIT_EXCEEDED'', ''PROVIDER_ERROR'', ''TIMEOUT_ERROR'', ''INTERNAL_ERROR'',
         ''NETWORK_ERROR'']
   \<and> (\<not> instanceof_HuefyError y \<longrightarrow>
        code (convertError kc (Some y)) \<in> set
          [''UNKNOWN_ERROR'', ''INVALID_API_KEY'', ''TEMPLATE_NOT_FOUND'', ''RATE_LIMIT_EXCEEDED'',
           ''TIMEOUT_ERROR'', ''NETWORK_ERROR'', ''KERNEL_ERROR''])
   \<and> convertError kc (Some (Huefy h0)) = h0
   \<and> convertError kc None = HuefyError ''Unknown error occurred'' ''UNKNOWN_ERROR'' None Undefined"
proof (intro conjI)
  show "\<exists>h. makeRequest_catch hc tmo x = Huefy h"
    by (rule makeRequest_catch_Huefy)
  show "\<not> instanceof_HuefyError x \<longrightarrow>
        (\<exists>h. makeRequest_catch hc tmo x = Huefy h
           \<and> code h \<in> set [''TIMEOUT_ERROR'', ''NETWORK_ERROR'', ''UNEXPECTED_ERROR''])"
    by (cases x) (simp_all add: makeRequest_catch_def error_ctor_defs)
  show "makeRequest_catch hc tmo (ThrownPrim p)
       = Huefy (HuefyError (''Unexpected error: '' @ prim_to_string p) ''UNEXPECTED_ERROR'' None Undefined)"
    by (simp add: makeRequest_catch_def)
  show "1 \<le> maxAttempts (http_retryConfig hc) \<longrightarrow>
        (\<exists>h. snd (request hc (\<lambda>k. makeRequest hc as_error tmo (outcomes k))) = Inl (Some (Huefy h)))
        \<or> (\<exists>r. snd (request hc (\<lambda>k. makeRequest hc as_error tmo (outcomes k))) = Inr r)"
  proof
    let ?call = "\<lambda>k. makeRequest hc as_error tmo (outcomes k)"
    assume "1 \<le> maxAttempts (http_retryConfig hc)"
    then have "int 1 \<le> maxAttempts (http_retryConfig hc)"
      by simp
    then have "(\<exists>r j. snd (retry_loop (http_retryConfig hc) isRetryableError ?call 1 None) = Inr r
                  \<and> ?call j = Inr r)
        \<or> (\<exists>e j. snd (retry_loop (http_retryConfig hc) isRetryableError ?call 1 None) = Inl (Some e)
                  \<and> ?call j = Inl e)"
      by (rule retry_loop_outcome)
    then show "(\<exists>h. snd (request hc ?call) = Inl (Some (Huefy h))) \<or> (\<exists>r. snd (request hc ?call) = Inr r)"
      unfolding request_def using makeRequest_throws_Huefy [of hc as_error tmo] by metis
  qed
  show "code (createErrorFromResponse data status) = resp_code data"
    by (simp add: createErrorFromResponse_def error_ctor_defs)
  show "code (convertGrpcError gc ge) \<in> set
        [''UNKNOWN_ERROR'', ''VALIDATION_ERROR'', ''INVALID_API_KEY'', ''TEMPLATE_NOT_FOUND'',
         ''RATE_LIMIT_EXCEEDED'', ''PROVIDER_ERROR'', ''TIMEOUT_ERROR'', ''INTERNAL_ERROR'',
         ''NETWORK_ERROR'']"
    by (simp add: convertGrpcError_def Let_def error_ctor_defs split: option.splits)
  show "\<not> instanceof_HuefyError y \<longrightarrow>
        code (convertError kc (Some y)) \<in> set
          [''UNKNOWN_ERROR'', ''INVALID_API_KEY'', ''TEMPLATE_NOT_FOUND'', ''RATE_LIMIT_EXCEEDED'',
           ''TIMEOUT_ERROR'', ''NETWORK_ERROR'', ''KERNEL_ERROR'']"
    by (cases y) (simp_all add: convertError_def Let_def error_ctor_defs)
  show "convertError kc (Some (Huefy h0)) = h0"
    by (simp add: convertError_def)
  show "convertError kc None = HuefyError ''Unknown error occurred'' ''UNKNOWN_ERROR'' None Undefined"
    by (simp add: convertError_def)
qed

theorem failures_surface_as_HuefyError_witness:
  "makeRequest_catch
        \<lparr>http_apiKey = ''key'', http_baseUrl = ''https://api.huefy.com/api/v1/sdk'', http_timeout = 30000,
        http_retryConfig = HTTP_DEFAULT_RETRY_CONFIG\<rparr>
        30000 (NativeError TypeErrorN ''TypeError'' ''Failed to fetch'')
     = Huefy (NetworkError ''Network error: Failed to fetch'' (Some ''Failed to fetch''))
   \<and> code (convertError
        \<lparr>kernel_apiKey = ''key'', kernel_endpoint = ''localhost:50051'', kernel_timeout = 30000,
        kernel_retryConfig = KERNEL_DEFAULT_RETRY_CONFIG,
        kernelBinaryPath = ''/pkg/bin/kernel-cli-linux-amd64''\<rparr>
        (Some (NativeError ErrorN ''Error'' ''Kernel process exited with code 2: boom''))) = ''KERNEL_ERROR''
   \<and> ((\<exists>h. snd (request
        \<lparr>http_apiKey = ''key'', http_baseUrl = ''https://api.huefy.com/api/v1/sdk'', http_timeout = 30000,
        http_retryConfig = HTTP_DEFAULT_RETRY_CONFIG\<rparr>
        (\<lambda>k. makeRequest
           \<lparr>http_apiKey = ''key'', http_baseUrl = ''https://api.huefy.com/api/v1/sdk'', http_timeout = 30000,
        http_retryConfig = HTTP_DEFAULT_RETRY_CONFIG\<rparr>
           (\<lambda>b. b) 30000 (FetchRejected (NativeError TypeErrorN ''TypeError'' ''Failed to fetch'')))) = Inl (Some (Huefy h)))
        \<or> (\<exists>r. snd (request
        \<lparr>http_apiKey = ''key'', http_baseUrl = ''https://api.huefy.com/api/v1/sdk'', http_timeout = 30000,
        http_retryConfig = HTTP_DEFAULT_RETRY_CONFIG\<rparr>
        (\<lambda>k. makeRequest
           \<lparr>http_apiKey = ''key'', http_baseUrl = ''https://api.huefy.com/api/v1/sdk'', http_timeout = 30000,
        http_retryConfig = HTTP_DEFAULT_RETRY_CONFIG\<rparr>
           (\<lambda>b. b) 30000 (FetchRejected (NativeError TypeErrorN ''TypeError'' ''Failed to fetch'')))) = Inr r))"
  using failures_surface_as_HuefyError
    [where hc = "\<lparr>http_apiKey = ''key'', http_baseUrl = ''https://api.huefy.com/api/v1/sdk'', http_timeout = 30000,
        http_retryConfig = HTTP_DEFAULT_RETRY_CONFIG\<rparr>"
       and tmo = 30000 and x = "NativeError TypeErrorN ''TypeError'' ''Failed to fetch''"
       and y = "NativeError ErrorN ''Error'' ''Kernel process exited with code 2: boom''"
       and kc = "\<lparr>kernel_apiKey = ''key'', kernel_endpoint = ''localhost:50051'', kernel_timeout = 30000,
        kernel_retryConfig = KERNEL_DEFAULT_RETRY_CONFIG,
        kernelBinaryPath = ''/pkg/bin/kernel-cli-linux-amd64''\<rparr>"
       and as_error = "\<lambda>b. b"
       and outcomes = "\<lambda>k. FetchRejected (NativeError TypeErrorN ''TypeError'' ''Failed to fetch'')"]
  by (simp add: HTTP_DEFAULT_RETRY_CONFIG_def makeRequest_catch_def convertError_def error_ctor_defs)

text \<open>
  The codes a caller sees are not a closed list, and an unrecognised failure is not
  mapped to \<open>UNKNOWN_ERROR\<close> or \<open>INTERNAL_ERROR\<close>: a 429 response with a code of the
  remote's own surfaces with that code, and a thrown string surfaces as
  \<open>UNEXPECTED_ERROR\<close>. A client configured with \<open>retryAttempts: -1\<close> is accepted by the
  constructor; its \<open>request\<close> makes no attempt and throws \<open>lastError\<close>, which is still
  \<open>null\<close>.
\<close>

theorem remote_code_and_null_surface_counterexample:
  "makeRequest
        \<lparr>http_apiKey = ''key'', http_baseUrl = ''https://api.huefy.com/api/v1/sdk'', http_timeout = 30000,
        http_retryConfig = HTTP_DEFAULT_RETRY_CONFIG\<rparr>
        (\<lambda>b. b) 30000
        (Responded 429 (Some \<lparr>resp_error = ''Too many requests'', resp_code = ''TOO_MANY_REQUESTS'', resp_details = None\<rparr>))
     = Inl (Huefy (HuefyError ''Too many requests'' ''TOO_MANY_REQUESTS'' (Some 429) Undefined))
   \<and> makeRequest_catch
        \<lparr>http_apiKey = ''key'', http_baseUrl = ''https://api.huefy.com/api/v1/sdk'', http_timeout = 30000,
        http_retryConfig = HTTP_DEFAULT_RETRY_CONFIG\<rparr>
        30000 (ThrownPrim (PStr ''boom''))
     = Huefy (HuefyError ''Unexpected error: boom'' ''UNEXPECTED_ERROR'' None Undefined)
   \<and> HttpClient \<lparr>apiKey = ''key'', baseUrl = None, timeout = None, retryAttempts = Some (- 1), retryDelay = None\<rparr>
     = Inr \<lparr>http_apiKey = ''key'', http_baseUrl = ''https://api.huefy.com/api/v1/sdk'', http_timeout = 30000,
        http_retryConfig = HTTP_DEFAULT_RETRY_CONFIG\<lparr>maxAttempts := - 1\<rparr>\<rparr>
   \<and> request
        \<lparr>http_apiKey = ''key'', http_baseUrl = ''https://api.huefy.com/api/v1/sdk'', http_timeout = 30000,
        http_retryConfig = HTTP_DEFAULT_RETRY_CONFIG\<lparr>maxAttempts := - 1\<rparr>\<rparr>
        (\<lambda>k. Inl (Huefy (TimeoutError 30000)) :: js_thrown + unit) = ([], Inl None)"
proof -
  have "request
        \<lparr>http_apiKey = ''key'', http_baseUrl = ''https://api.huefy.com/api/v1/sdk'', http_timeout = 30000,
        http_retryConfig = HTTP_DEFAULT_RETRY_CONFIG\<lparr>maxAttempts := - 1\<rparr>\<rparr>
        (\<lambda>k. Inl (Huefy (TimeoutError 30000)) :: js_thrown + unit) = ([], Inl None)"
    unfolding request_def by (rule retry_loop_exit) (simp add: HTTP_DEFAULT_RETRY_CONFIG_def)
  then show ?thesis
    by (simp add: makeRequest_def makeRequest_catch_def response_ok_def createErrorFromResponse_def
        opt_obj_def HuefyError_def HttpClient_def num_or_def str_or_def)
qed

subsection \<open>Classifying a known remote payload\<close>

text \<open>
  C7. Classifying the remote error payload
  \<open>{error: "x", code: "TEMPLATE_NOT_FOUND", details: {template_key: "t"}}\<close>, whatever the
  HTTP status it arrived with, yields a \<open>TemplateNotFoundError\<close>: code
  \<open>TEMPLATE_NOT_FOUND\<close>, status code 404, and \<open>details.template_key\<close> equal to \<open>"t"\<close>.
\<close>

theorem createErrorFromResponse_template_not_found:
  "cls (createErrorFromResponse
          \<lparr>resp_error = ''x'', resp_code = ''TEMPLATE_NOT_FOUND'',
           resp_details = Some [(''template_key'', Str ''t'')]\<rparr> status) = TemplateNotFoundErrorC
   \<and> code (createErrorFromResponse
          \<lparr>resp_error = ''x'', resp_code = ''TEMPLATE_NOT_FOUND'',
           resp_details = Some [(''template_key'', Str ''t'')]\<rparr> status) = ''TEMPLATE_NOT_FOUND''
   \<and> statusCode (createErrorFromResponse
          \<lparr>resp_error = ''x'', resp_code = ''TEMPLATE_NOT_FOUND'',
           resp_details = Some [(''template_key'', Str ''t'')]\<rparr> status) = Some 404
   \<and> (\<exists>ob. details (createErrorFromResponse
          \<lparr>resp_error = ''x'', resp_code = ''TEMPLATE_NOT_FOUND'',
           resp_details = Some [(''template_key'', Str ''t'')]\<rparr> status) = Obj ob
         \<and> get_prop ob ''template_key'' = Str ''t'')"
  by (simp add: createErrorFromResponse_def TemplateNotFoundError_def HuefyError_def
      detail_or_unknown_def get_prop_def spread_def)

subsection \<open>Status codes and error classes\<close>

text \<open>
  C8, as the code has it. The status code follows the class of the error: every
  \<open>AuthenticationError\<close> carries 401, every \<open>TemplateNotFoundError\<close> 404, every
  \<open>InvalidTemplateDataError\<close>, \<open>InvalidRecipientError\<close> and \<open>ValidationError\<close> 400, every
  \<open>ProviderError\<close> 500, every \<open>RateLimitError\<close> 429, and a \<open>NetworkError\<close> or
  \<open>TimeoutError\<close> none; \<open>createErrorFromResponse\<close>, \<open>convertGrpcError\<close>, \<open>convertError\<close>
  and the catch block of \<open>makeRequest\<close> only produce errors built so, and among the
  instances of a subclass only a \<open>RateLimitError\<close> carries 429. An error of the base
  class carries the status its creator passes: for a code outside its six cases
  \<open>createErrorFromResponse\<close> passes the status of the HTTP response and the code of the
  payload.
\<close>

theorem status_follows_error_class:
  "statusCode (AuthenticationError m d) = Some 401
   \<and> statusCode (TemplateNotFoundError k od) = Some 404
   \<and> statusCode (InvalidTemplateDataError m d) = Some 400
   \<and> statusCode (InvalidRecipientError k od) = Some 400
   \<and> statusCode (ValidationError m d) = Some 400
   \<and> statusCode (ProviderError m d) = Some 500
   \<and> statusCode (RateLimitError m d) = Some 429
   \<and> statusCode (NetworkError m cause) = None
   \<and> statusCode (TimeoutError t) = None
   \<and> well_formed (createErrorFromResponse data status)
   \<and> well_formed (convertGrpcError gc ge)
   \<and> well_formed (convertError kc None)
   \<and> ((case y of Huefy h \<Rightarrow> well_formed h | _ \<Rightarrow> True) \<longrightarrow> well_formed (convertError kc (Some y)))
   \<and> ((case x of Huefy h \<Rightarrow> well_formed h | _ \<Rightarrow> True) \<longrightarrow>
        (\<exists>h. makeRequest_catch hc tmo x = Huefy h \<and> well_formed h))
   \<and> (well_formed e \<and> statusCode e = Some 429 \<longrightarrow> cls e = RateLimitErrorC \<or> cls e = HuefyErrorC)
   \<and> (cls (createErrorFromResponse data status) = HuefyErrorC \<longrightarrow>
        statusCode (createErrorFromResponse data status) = Some status
        \<and> code (createErrorFromResponse data status) = resp_code data)"
proof (intro conjI)
  show "well_formed (createErrorFromResponse data status)"
    by (rule well_formed_createErrorFromResponse)
  show "well_formed (convertGrpcError gc ge)"
    by (rule well_formed_convertGrpcError)
  show "well_formed (convertError kc None)"
    by (simp add: convertError_def well_formed_ctors)
  show "(case y of Huefy h \<Rightarrow> well_formed h | _ \<Rightarrow> True) \<longrightarrow> well_formed (convertError kc (Some y))"
    using well_formed_convertError by blast
  show "(case x of Huefy h \<Rightarrow> well_formed h | _ \<Rightarrow> True) \<longrightarrow>
        (\<exists>h. makeRequest_catch hc tmo x = Huefy h \<and> well_formed h)"
    using well_formed_makeRequest_catch by blast
  show "well_formed e \<and> statusCode e = Some 429 \<longrightarrow> cls e = RateLimitErrorC \<or> cls e = HuefyErrorC"
    by (cases "cls e") (auto simp: well_formed_def)
  show "cls (createErrorFromResponse data status) = HuefyErrorC \<longrightarrow>
        statusCode (createErrorFromResponse data status) = Some status
        \<and> code (createErrorFromResponse data status) = resp_code data"
    by (simp add: createErrorFromResponse_def error_ctor_defs)
qed (simp_all add: error_ctor_defs)

theorem status_follows_error_class_witness:
  "well_formed (RateLimitError ''Rate limit exceeded'' Undefined)
   \<and> statusCode (RateLimitError ''Rate limit exceeded'' Undefined) = Some 429
   \<and> cls (RateLimitError ''Rate limit exceeded'' Undefined) = RateLimitErrorC
   \<and> well_formed (convertError
        \<lparr>kernel_apiKey = ''key'', kernel_endpoint = ''localhost:50051'', kernel_timeout = 30000,
        kernel_retryConfig = KERNEL_DEFAULT_RETRY_CONFIG,
        kernelBinaryPath = ''/pkg/bin/kernel-cli-linux-amd64''\<rparr>
        (Some (Huefy (RateLimitError ''Rate limit exceeded'' Undefined))))
   \<and> makeRequest_catch
        \<lparr>http_apiKey = ''key'', http_baseUrl = ''https://api.huefy.com/api/v1/sdk'', http_timeout = 30000,
        http_retryConfig = HTTP_DEFAULT_RETRY_CONFIG\<rparr>
        30000 (Huefy (RateLimitError ''Rate limit exceeded'' Undefined)) = Huefy (RateLimitError ''Rate limit exceeded'' Undefined)
   \<and> cls (createErrorFromResponse \<lparr>resp_error = ''Too many requests'', resp_code = ''TOO_MANY_REQUESTS'', resp_details = None\<rparr> 429) = HuefyErrorC
   \<and> statusCode (createErrorFromResponse \<lparr>resp_error = ''Too many requests'', resp_code = ''TOO_MANY_REQUESTS'', resp_details = None\<rparr> 429) = Some 429
   \<and> code (createErrorFromResponse \<lparr>resp_error = ''Too many requests'', resp_code = ''TOO_MANY_REQUESTS'', resp_details = None\<rparr> 429) = ''TOO_MANY_REQUESTS''"
  using status_follows_error_class
    [where y = "Huefy (RateLimitError ''Rate limit exceeded'' Undefined)" and x = "Huefy (RateLimitError ''Rate limit exceeded'' Undefined)"
       and e = "RateLimitError ''Rate limit exceeded'' Undefined"
       and kc = "\<lparr>kernel_apiKey = ''key'', kernel_endpoint = ''localhost:50051'', kernel_timeout = 30000,
        kernel_retryConfig = KERNEL_DEFAULT_RETRY_CONFIG,
        kernelBinaryPath = ''/pkg/bin/kernel-cli-linux-amd64''\<rparr>"
       and hc = "\<lparr>http_apiKey = ''key'', http_baseUrl = ''https://api.huefy.com/api/v1/sdk'', http_timeout = 30000,
        http_retryConfig = HTTP_DEFAULT_RETRY_CONFIG\<rparr>"
       and tmo = 30000
       and data = "\<lparr>resp_error = ''Too many requests'', resp_code = ''TOO_MANY_REQUESTS'', resp_details = None\<rparr>"
       and status = 429]
  by (simp add: well_formed_def makeRequest_catch_def convertError_def createErrorFromResponse_def
      error_ctor_defs opt_obj_def)

text \<open>
  The code string does not fix the status. A 429 response whose payload has a code the
  factory does not know becomes a base error with status 429; a payload with code
  \<open>INTERNAL_ERROR\<close> arriving with status 503 keeps 503; and the gRPC status INTERNAL
  becomes an error with code \<open>INTERNAL_ERROR\<close> and no status at all.
\<close>

theorem status_not_fixed_by_code_counterexample:
  "statusCode (createErrorFromResponse
       \<lparr>resp_error = ''Too many requests'', resp_code = ''TOO_MANY_REQUESTS'', resp_details = None\<rparr> 429)
     = Some 429
   \<and> cls (createErrorFromResponse
       \<lparr>resp_error = ''Too many requests'', resp_code = ''TOO_MANY_REQUESTS'', resp_details = None\<rparr> 429)
     = HuefyErrorC
   \<and> code (createErrorFromResponse
       \<lparr>resp_error = ''Too many requests'', resp_code = ''TOO_MANY_REQUESTS'', resp_details = None\<rparr> 429)
     = ''TOO_MANY_REQUESTS''
   \<and> code (createErrorFromResponse
       \<lparr>resp_error = ''Service unavailable'', resp_code = ''INTERNAL_ERROR'', resp_details = None\<rparr> 503)
     = ''INTERNAL_ERROR''
   \<and> statusCode (createErrorFromResponse
       \<lparr>resp_error = ''Service unavailable'', resp_code = ''INTERNAL_ERROR'', resp_details = None\<rparr> 503)
     = Some 503
   \<and> code (convertGrpcError
       \<lparr>grpc_apiKey = ''key'', grpc_endpoint = ''localhost:50051'', grpc_timeout = 30000,
        grpc_retryConfig = GRPC_DEFAULT_RETRY_CONFIG\<rparr>
       (Some \<lparr>gcode = Some 13, gdetails = ''boom'', gmessage = ''13 INTERNAL: boom''\<rparr>))
     = ''INTERNAL_ERROR''
   \<and> statusCode (convertGrpcError
       \<lparr>grpc_apiKey = ''key'', grpc_endpoint = ''localhost:50051'', grpc_timeout = 30000,
        grpc_retryConfig = GRPC_DEFAULT_RETRY_CONFIG\<rparr>
       (Some \<lparr>gcode = Some 13, gdetails = ''boom'', gmessage = ''13 INTERNAL: boom''\<rparr>))
     = None"
  by (simp add: createErrorFromResponse_def convertGrpcError_def grpc_status_defs error_ctor_defs opt_obj_def)



subsection \<open>The timeout of a kernel process\<close>




subsection \<open>Zero and negative configuration values\<close>

text \<open>
  C10. Each constructor (\<open>HttpClient\<close>, \<open>GrpcClient\<close>, \<open>KernelClient\<close>) reads
  \<open>timeout\<close>, \<open>retryAttempts\<close> and \<open>retryDelay\<close> with \<open>||\<close>: a value of 0 gives the same
  client as an absent value, with the default in its place (timeout 30000 ms, 3
  attempts, initial delay 1000 ms), so \<open>retryAttempts: 0\<close> does not disable retries.
  A negative timeout makes every constructor throw a \<open>HuefyError\<close> with code
  \<open>INVALID_CONFIG\<close>.
\<close>

theorem zero_config_values_replaced_by_defaults:
  "(HttpClient config = Inr hc \<longrightarrow>
      (timeout config = Some 0 \<longrightarrow> http_timeout hc = 30000)
      \<and> (retryAttempts config = Some 0 \<longrightarrow> maxAttempts (http_retryConfig hc) = 3)
      \<and> (retryDelay config = Some 0 \<longrightarrow> initialDelay (http_retryConfig hc) = 1000))
   \<and> (GrpcClient production init_failure config = Inr gc \<longrightarrow>
      (timeout config = Some 0 \<longrightarrow> grpc_timeout gc = 30000)
      \<and> (retryAttempts config = Some 0 \<longrightarrow> maxAttempts (grpc_retryConfig gc) = 3)
      \<and> (retryDelay config = Some 0 \<longrightarrow> initialDelay (grpc_retryConfig gc) = 1000))
   \<and> (KernelClient production platform arch packageDir config = Inr kc \<longrightarrow>
      (timeout config = Some 0 \<longrightarrow> kernel_timeout kc = 30000)
      \<and> (retryAttempts config = Some 0 \<longrightarrow> maxAttempts (kernel_retryConfig kc) = 3)
      \<and> (retryDelay config = Some 0 \<longrightarrow> initialDelay (kernel_retryConfig kc) = 1000))
   \<and> HttpClient (config\<lparr>timeout := Some 0\<rparr>) = HttpClient (config\<lparr>timeout := None\<rparr>)
   \<and> HttpClient (config\<lparr>retryAttempts := Some 0\<rparr>) = HttpClient (config\<lparr>retryAttempts := None\<rparr>)
   \<and> HttpClient (config\<lparr>retryDelay := Some 0\<rparr>) = HttpClient (config\<lparr>retryDelay := None\<rparr>)
   \<and> GrpcClient production init_failure (config\<lparr>timeout := Some 0\<rparr>)
       = GrpcClient production init_failure (config\<lparr>timeout := None\<rparr>)
   \<and> GrpcClient production init_failure (config\<lparr>retryAttempts := Some 0\<rparr>)
       = GrpcClient production init_failure (config\<lparr>retryAttempts := None\<rparr>)
   \<and> GrpcClient production init_failure (config\<lparr>retryDelay := Some 0\<rparr>)
       = GrpcClient production init_failure (config\<lparr>retryDelay := None\<rparr>)
   \<and> KernelClient production platform arch packageDir (config\<lparr>timeout := Some 0\<rparr>)
       = KernelClient production platform arch packageDir (config\<lparr>timeout := None\<rparr>)
   \<and> KernelClient production platform arch packageDir (config\<lparr>retryAttempts := Some 0\<rparr>)
       = KernelClient production platform arch packageDir (config\<lparr>retryAttempts := None\<rparr>)
   \<and> KernelClient production platform arch packageDir (config\<lparr>retryDelay := Some 0\<rparr>)
       = KernelClient production platform arch packageDir (config\<lparr>retryDelay := None\<rparr>)
   \<and> (timeout config' = Some t \<and> t < 0 \<longrightarrow>
        (\<exists>e. HttpClient config' = Inl e \<and> code e = ''INVALID_CONFIG'')
        \<and> (\<exists>e. GrpcClient production init_failure config' = Inl e \<and> code e = ''INVALID_CONFIG'')
        \<and> (\<exists>e. KernelClient production platform arch packageDir config' = Inl e
                 \<and> code e = ''INVALID_CONFIG''))"
proof (intro conjI)
  show "HttpClient config = Inr hc \<longrightarrow>
      (timeout config = Some 0 \<longrightarrow> http_timeout hc = 30000)
      \<and> (retryAttempts config = Some 0 \<longrightarrow> maxAttempts (http_retryConfig hc) = 3)
      \<and> (retryDelay config = Some 0 \<longrightarrow> initialDelay (http_retryConfig hc) = 1000)"
    by (auto simp: client_ctor_defs Let_def split: if_splits)
  show "GrpcClient production init_failure config = Inr gc \<longrightarrow>
      (timeout config = Some 0 \<longrightarrow> grpc_timeout gc = 30000)
      \<and> (retryAttempts config = Some 0 \<longrightarrow> maxAttempts (grpc_retryConfig gc) = 3)
      \<and> (retryDelay config = Some 0 \<longrightarrow> initialDelay (grpc_retryConfig gc) = 1000)"
    by (auto simp: GrpcClient_def num_or_def GRPC_DEFAULT_RETRY_CONFIG_def Let_def
        split: if_splits option.splits)
  show "KernelClient production platform arch packageDir config = Inr kc \<longrightarrow>
      (timeout config = Some 0 \<longrightarrow> kernel_timeout kc = 30000)
      \<and> (retryAttempts config = Some 0 \<longrightarrow> maxAttempts (kernel_retryConfig kc) = 3)
      \<and> (retryDelay config = Some 0 \<longrightarrow> initialDelay (kernel_retryConfig kc) = 1000)"
    by (auto simp: KernelClient_def num_or_def KERNEL_DEFAULT_RETRY_CONFIG_def Let_def
        split: if_splits sum.splits)
  show "timeout config' = Some t \<and> t < 0 \<longrightarrow>
        (\<exists>e. HttpClient config' = Inl e \<and> code e = ''INVALID_CONFIG'')
        \<and> (\<exists>e. GrpcClient production init_failure config' = Inl e \<and> code e = ''INVALID_CONFIG'')
        \<and> (\<exists>e. KernelClient production platform arch packageDir config' = Inl e
                 \<and> code e = ''INVALID_CONFIG'')"
    by (simp add: HttpClient_def GrpcClient_def KernelClient_def num_or_def Let_def HuefyError_def)
qed (simp_all add: HttpClient_def GrpcClient_def KernelClient_def getGrpcEndpoint_def num_or_def Let_def
    split: sum.splits)


theorem zero_config_values_replaced_by_defaults_witness:
  "HttpClient \<lparr>apiKey = ''key'', baseUrl = None, timeout = Some 0, retryAttempts = Some 0, retryDelay = Some 0\<rparr>
     = Inr \<lparr>http_apiKey = ''key'', http_baseUrl = ''https://api.huefy.com/api/v1/sdk'', http_timeout = 30000,
        http_retryConfig = HTTP_DEFAULT_RETRY_CONFIG\<rparr>
   \<and> maxAttempts HTTP_DEFAULT_RETRY_CONFIG = 3 \<and> initialDelay HTTP_DEFAULT_RETRY_CONFIG = 1000
   \<and> GrpcClient False None \<lparr>apiKey = ''key'', baseUrl = None, timeout = Some 0, retryAttempts = Some 0, retryDelay = Some 0\<rparr>
     = Inr \<lparr>grpc_apiKey = ''key'', grpc_endpoint = ''localhost:50051'', grpc_timeout = 30000,
        grpc_retryConfig = GRPC_DEFAULT_RETRY_CONFIG\<rparr>
   \<and> maxAttempts GRPC_DEFAULT_RETRY_CONFIG = 3 \<and> initialDelay GRPC_DEFAULT_RETRY_CONFIG = 1000
   \<and> KernelClient False ''linux'' ''x64'' ''/pkg'' \<lparr>apiKey = ''key'', baseUrl = None, timeout = Some 0, retryAttempts = Some 0, retryDelay = Some 0\<rparr>
     = Inr \<lparr>kernel_apiKey = ''key'', kernel_endpoint = ''localhost:50051'', kernel_timeout = 30000,
        kernel_retryConfig = KERNEL_DEFAULT_RETRY_CONFIG,
        kernelBinaryPath = ''/pkg/bin/kernel-cli-linux-amd64''\<rparr>
   \<and> maxAttempts KERNEL_DEFAULT_RETRY_CONFIG = 3 \<and> initialDelay KERNEL_DEFAULT_RETRY_CONFIG = 1000
   \<and> HttpClient \<lparr>apiKey = ''key'', baseUrl = None, timeout = Some (- 1), retryAttempts = None, retryDelay = None\<rparr>
     = Inl (HuefyError ''Timeout must be a positive number'' ''INVALID_CONFIG'' None Undefined)
   \<and> GrpcClient False None \<lparr>apiKey = ''key'', baseUrl = None, timeout = Some (- 1), retryAttempts = None, retryDelay = None\<rparr>
     = Inl (HuefyError ''Timeout must be a positive number'' ''INVALID_CONFIG'' None Undefined)
   \<and> KernelClient False ''linux'' ''x64'' ''/pkg'' \<lparr>apiKey = ''key'', baseUrl = None, timeout = Some (- 1), retryAttempts = None, retryDelay = None\<rparr>
     = Inl (HuefyError ''Timeout must be a positive number'' ''INVALID_CONFIG'' None Undefined)"
  using zero_config_values_replaced_by_defaults
    [where config = "\<lparr>apiKey = ''key'', baseUrl = None, timeout = Some 0, retryAttempts = Some 0, retryDelay = Some 0\<rparr>"
       and hc = "\<lparr>http_apiKey = ''key'', http_baseUrl = ''https://api.huefy.com/api/v1/sdk'', http_timeout = 30000,
        http_retryConfig = HTTP_DEFAULT_RETRY_CONFIG\<rparr>"
       and gc = "\<lparr>grpc_apiKey = ''key'', grpc_endpoint = ''localhost:50051'', grpc_timeout = 30000,
        grpc_retryConfig = GRPC_DEFAULT_RETRY_CONFIG\<rparr>"
       and kc = "\<lparr>kernel_apiKey = ''key'', kernel_endpoint = ''localhost:50051'', kernel_timeout = 30000,
        kernel_retryConfig = KERNEL_DEFAULT_RETRY_CONFIG,
        kernelBinaryPath = ''/pkg/bin/kernel-cli-linux-amd64''\<rparr>"
       and production = False and init_failure = None
       and platform = "''linux''" and arch = "''x64''" and packageDir = "''/pkg''"
       and config' = "\<lparr>apiKey = ''key'', baseUrl = None, timeout = Some (- 1), retryAttempts = None, retryDelay = None\<rparr>"
       and t = "- 1"]
  by (simp add: client_ctor_defs HuefyError_def)

end
